theory Spec2Isabelle
  imports Complex_Main
begin

section \<open>Values, exceptions and tensors\<close>

text \<open>
  The exceptions of \<^verbatim>\<open>trainer/trainer.py\<close> that a branch of the code raises or catches.
  A call either returns a value or raises; the state it leaves behind is returned beside
  the outcome, because a Python exception does not undo the assignments made before it.
\<close>

datatype error =
    StopIteration
  | IndexError
  | TypeError
  | ZeroDivisionError
  | RuntimeError string
  | PermissionError string
  | FileNotFoundError string
  | OtherError string

datatype 'a outcome = Return 'a | Raise error

text \<open>
  A tensor element is a float, kept by its IEEE class: the code only asks
  \<^verbatim>\<open>torch.isnan\<close> of it. Float arithmetic is a parameter of the model (see \<open>collab\<close>).
\<close>

datatype fval = Finite real | PosInf | NegInf | NaN

fun isnan :: "fval \<Rightarrow> bool" where
  "isnan NaN = True"
| "isnan _ = False"

fun isfinite :: "fval \<Rightarrow> bool" where
  "isfinite (Finite _) = True"
| "isfinite _ = False"

datatype device = CPU | CUDA

record 'a tensor =
  shape :: "nat list"
  elems :: "'a list"
  device :: device
  requires_grad :: bool

type_synonym images = "fval tensor"
type_synonym labels = "int tensor"

text \<open>\<^verbatim>\<open>t.cuda()\<close>: the tensor itself when it is on the device already, a copy there otherwise.\<close>

definition cuda :: "'a tensor \<Rightarrow> 'a tensor" where
  "cuda t = t\<lparr>device := CUDA\<rparr>"

text \<open>\<^verbatim>\<open>t[i]\<close> for a non-negative index along the first dimension.\<close>

definition select0 :: "'a tensor \<Rightarrow> nat \<Rightarrow> 'a tensor outcome" where
  "select0 t i =
     (case shape t of
        [] \<Rightarrow> Raise IndexError
      | n # rest \<Rightarrow>
          if i < n
          then Return (t\<lparr>shape := rest,
                         elems := take (prod_list rest) (drop (i * prod_list rest) (elems t))\<rparr>)
          else Raise IndexError)"

text \<open>\<^verbatim>\<open>torch.isnan(param).any()\<close>\<close>

definition isnan_any :: "fval tensor \<Rightarrow> bool" where
  "isnan_any p = list_ex isnan (elems p)"

definition has_non_finite :: "fval tensor \<Rightarrow> bool" where
  "has_non_finite p = list_ex (\<lambda>v. \<not> isfinite v) (elems p)"


section \<open>The model, the loss, the accuracy strategy\<close>

record nn_module =
  class_name :: string
  training :: bool
  named_parameters :: "(string \<times> fval tensor) list"

text \<open>\<^verbatim>\<open>model.cuda()\<close> moves every parameter to the device.\<close>

definition model_cuda :: "nn_module \<Rightarrow> nn_module" where
  "model_cuda m = m\<lparr>named_parameters := map (\<lambda>(n, p). (n, cuda p)) (named_parameters m)\<rparr>"

text \<open>
  A loss object: its class name and whether \<^verbatim>\<open>isinstance(criterion, PairLoss)\<close> holds
  (\<^verbatim>\<open>loss.PairLoss\<close> and its subclasses).
\<close>

record loss_fn =
  criterion_class :: string
  is_pair_loss :: bool

datatype accuracy_class = AccuracyEmbedding | AccuracyArgmax | AccuracyOther string

text \<open>An accuracy strategy: its class, and the statistics its calibration (\<^verbatim>\<open>save\<close>) stored.\<close>

record accuracy =
  accuracy_class :: accuracy_class
  calibration :: "fval list"

definition new_accuracy :: "accuracy_class \<Rightarrow> accuracy" where
  "new_accuracy c = \<lparr>accuracy_class = c, calibration = []\<rparr>"

text \<open>
  The mask trainer keeps the shape of one sample image. Its accuracy strategy is the
  trainer's own object, so it is read from the trainer where the mask trainer is used.
\<close>

record mask_learner =
  image_shape :: "nat list"

type_synonym loader = "(images \<times> labels) list"

text \<open>
  Modelled from the spec: \<^verbatim>\<open>utils.prepare.prepare_eval\<close> and the object it returns are not
  among the sources. The spec describes it as "capture current mode, force evaluation mode,
  run, restore original mode".
\<close>

record model_mode =
  mode :: bool

definition prepare_eval :: "nn_module \<Rightarrow> model_mode \<times> nn_module" where
  "prepare_eval m = (\<lparr>mode = training m\<rparr>, m\<lparr>training := False\<rparr>)"

definition mode_restore :: "model_mode \<Rightarrow> nn_module \<Rightarrow> nn_module" where
  "mode_restore saved m = m\<lparr>training := mode saved\<rparr>"


section \<open>The epoch timer\<close>

text \<open>
  Modelled from the spec: \<^verbatim>\<open>monitor.batch_timer.timer\<close> is not among the sources. The spec
  describes it as a "process-wide counter of completed epochs and batches-per-epoch",
  initialised "with the training loader's batch count", whose epoch counter is a
  "non-negative integer" that "advances by exactly one per completed epoch" and that a
  restore overwrites from the checkpoint. The model counts the batch-finished events
  that \<^verbatim>\<open>train_epoch\<close> pushes and reads the epoch as the number of whole epochs they make.
  The constructor draws a batch from the loader whose length it gives the timer, so a
  trainer that exists has at least one batch per epoch and the division is by a positive
  number (see \<open>timer_consistent\<close>).
\<close>

record batch_timer =
  batches_in_epoch :: nat
  batch_id :: nat

definition timer_init :: "batch_timer \<Rightarrow> nat \<Rightarrow> batch_timer" where
  "timer_init t n = t\<lparr>batches_in_epoch := n\<rparr>"

definition timer_epoch :: "batch_timer \<Rightarrow> nat" where
  "timer_epoch t = batch_id t div batches_in_epoch t"

definition timer_tick :: "batch_timer \<Rightarrow> batch_timer" where
  "timer_tick t = t\<lparr>batch_id := Suc (batch_id t)\<rparr>"

definition set_epoch :: "batch_timer \<Rightarrow> nat \<Rightarrow> batch_timer" where
  "set_epoch t e = t\<lparr>batch_id := batches_in_epoch t * e\<rparr>"


section \<open>Files\<close>

text \<open>
  A path is the list of its components from the root. A checkpoint file holds the
  dictionary that \<^verbatim>\<open>state_dict\<close> builds. Directories and files may be write-protected.
\<close>

type_synonym path = "string list"

record checkpoint =
  model_state :: "(string \<times> fval tensor) list"
  epoch :: nat
  checkpoint_env_name :: string

datatype file_content = CheckpointFile checkpoint | OtherFile

record filesystem =
  dirs :: "path list"
  files :: "path \<rightharpoonup> file_content"
  read_only :: "path list"

definition parent :: "path \<Rightarrow> path" where
  "parent p = butlast p"

definition path_str :: "path \<Rightarrow> string" where
  "path_str p = concat (map (\<lambda>c. CHR ''/'' # c) p)"

definition is_dir :: "filesystem \<Rightarrow> path \<Rightarrow> bool" where
  "is_dir f p = (p = [] \<or> p \<in> set (dirs f))"

definition path_exists :: "filesystem \<Rightarrow> path \<Rightarrow> bool" where
  "path_exists f p = (is_dir f p \<or> files f p \<noteq> None)"

text \<open>
  \<^verbatim>\<open>os.mkdir(p)\<close>: the entry must be new, its parent an existing directory that may be
  written.
\<close>

definition os_mkdir :: "filesystem \<Rightarrow> path \<Rightarrow> unit outcome \<times> filesystem" where
  "os_mkdir f p =
     (if path_exists f p then (Raise (OtherError ''FileExistsError''), f)
      else if files f (parent p) \<noteq> None then (Raise (OtherError ''NotADirectoryError''), f)
      else if \<not> is_dir f (parent p) then (Raise (FileNotFoundError (path_str p)), f)
      else if parent p \<in> set (read_only f) then (Raise (PermissionError (path_str p)), f)
      else (Return (), f\<lparr>dirs := dirs f @ [p]\<rparr>))"

text \<open>
  \<^verbatim>\<open>Path.mkdir(parents=True, exist_ok=True)\<close>: try \<^verbatim>\<open>os.mkdir\<close>; on FileNotFoundError make
  the parent first and try again; any other OSError is swallowed only when the path is
  a directory already.
\<close>

function mkdir_parents :: "filesystem \<Rightarrow> path \<Rightarrow> unit outcome \<times> filesystem" where
  "mkdir_parents f p =
     (case os_mkdir f p of
        (Return u, f') \<Rightarrow> (Return (), f')
      | (Raise (FileNotFoundError msg), f') \<Rightarrow>
          (if p = [] then (Raise (FileNotFoundError msg), f')
           else (case mkdir_parents f' (parent p) of
                   (Raise e, f'') \<Rightarrow> (Raise e, f'')
                 | (Return u, f'') \<Rightarrow>
                     (case os_mkdir f'' p of
                        (Return u', f3) \<Rightarrow> (Return (), f3)
                      | (Raise e, f3) \<Rightarrow>
                          if is_dir f3 p then (Return (), f3) else (Raise e, f3))))
      | (Raise e, f') \<Rightarrow> if is_dir f' p then (Return (), f') else (Raise e, f'))"
  by pat_completeness auto
termination
  by (relation "measure (\<lambda>(f, p). length p)") (auto simp: parent_def)

text \<open>
  \<^verbatim>\<open>torch.save(obj, path)\<close> opens the path for writing and pickles the object into it.
\<close>

definition torch_save :: "filesystem \<Rightarrow> checkpoint \<Rightarrow> path \<Rightarrow> unit outcome \<times> filesystem" where
  "torch_save f obj p =
     (if is_dir f p then (Raise (OtherError ''IsADirectoryError''), f)
      else if \<not> is_dir f (parent p) then (Raise (FileNotFoundError (path_str p)), f)
      else if files f p \<noteq> None \<and> p \<in> set (read_only f) then (Raise (PermissionError (path_str p)), f)
      else if files f p = None \<and> parent p \<in> set (read_only f)
        then (Raise (PermissionError (path_str p)), f)
      else (Return (), f\<lparr>files := (files f)(p \<mapsto> CheckpointFile obj)\<rparr>))"

text \<open>\<^verbatim>\<open>torch.load(path)\<close> of a path that exists.\<close>

definition torch_load :: "filesystem \<Rightarrow> path \<Rightarrow> checkpoint outcome" where
  "torch_load f p =
     (case files f p of
        Some (CheckpointFile c) \<Rightarrow> Return c
      | Some OtherFile \<Rightarrow> Raise (OtherError ''UnpicklingError'')
      | None \<Rightarrow>
          if is_dir f p then Raise (OtherError ''IsADirectoryError'')
          else Raise (FileNotFoundError (path_str p)))"


section \<open>Programs over a state\<close>

text \<open>
  A method of the trainer is a function from the state before the call to the outcome
  and the state after it. \<open>seq\<close> is the semicolon: the second statement runs only when
  the first returned. \<open>catch\<close> is \<^verbatim>\<open>try ... except\<close>, \<open>for_loop\<close> is \<^verbatim>\<open>for x in xs\<close> with
  the loop's local variables threaded through the body.
\<close>

type_synonym ('a, 's) prog = "'s \<Rightarrow> 'a outcome \<times> 's"

definition ret :: "'a \<Rightarrow> ('a, 's) prog" where
  "ret x s = (Return x, s)"

definition raise :: "error \<Rightarrow> ('a, 's) prog" where
  "raise e s = (Raise e, s)"

definition seq :: "('a, 's) prog \<Rightarrow> ('a \<Rightarrow> ('b, 's) prog) \<Rightarrow> ('b, 's) prog" where
  "seq f g s = (case f s of (Return x, s') \<Rightarrow> g x s' | (Raise e, s') \<Rightarrow> (Raise e, s'))"

definition catch :: "('a, 's) prog \<Rightarrow> (error \<Rightarrow> ('a, 's) prog option) \<Rightarrow> ('a, 's) prog" where
  "catch f handler s =
     (case f s of
        (Return x, s') \<Rightarrow> (Return x, s')
      | (Raise e, s') \<Rightarrow> (case handler e of Some h \<Rightarrow> h s' | None \<Rightarrow> (Raise e, s')))"

definition pure_call :: "'a outcome \<Rightarrow> ('a, 's) prog" where
  "pure_call r s = (r, s)"

definition modify :: "('s \<Rightarrow> 's) \<Rightarrow> (unit, 's) prog" where
  "modify f s = (Return (), f s)"

fun for_loop :: "'a list \<Rightarrow> ('a \<Rightarrow> 'b \<Rightarrow> ('b, 's) prog) \<Rightarrow> 'b \<Rightarrow> ('b, 's) prog" where
  "for_loop [] body acc = ret acc"
| "for_loop (x # xs) body acc = seq (body x acc) (for_loop xs body)"

text \<open>\<^verbatim>\<open>range(a, b)\<close>\<close>

definition py_range :: "int \<Rightarrow> int \<Rightarrow> int list" where
  "py_range a b = map (\<lambda>i. a + int i) [0..<nat (b - a)]"

text \<open>\<^verbatim>\<open>a % b\<close> on integers: the sign follows the divisor, as \<open>mod\<close> on \<open>int\<close> does.\<close>

definition py_mod :: "int \<Rightarrow> int \<Rightarrow> (int, 's) prog" where
  "py_mod a b = (if b = 0 then raise ZeroDivisionError else ret (a mod b))"

definition squote :: "string \<Rightarrow> string" where
  "squote x = CHR 0x27 # x @ [CHR 0x27]"


section \<open>The trainer and what surrounds it\<close>

text \<open>
  The result of the attack generator refers to tensor objects: the working batch is
  updated in place while the clone is kept, so both live in a store (\<open>heap\<close>) and are
  named by their positions in it.
\<close>

record adversarial_examples =
  original :: nat
  adversarial :: nat
  adv_labels :: labels

text \<open>
  The calls that reach the monitoring sink, the progress bar, the full forward pass, the
  accuracy strategy's calibration and \<^verbatim>\<open>torch.save\<close>, in the order they are made and
  with what they are made on: the full forward pass with the model it is handed (and
  whether it is the decorated one), the calibration with the strategy that is calibrated
  and the outputs and labels it is given, \<^verbatim>\<open>torch.save\<close> with the path, the object and the
  file system it writes to. The sink is only pushed to and never queried.
\<close>

datatype call =
    RegisterLayer string
  | MonitorOpen string
  | MonitorClear
  | MonitorLog string
  | MonitorLogModel
  | MonitorLogSelf
  | MutualInfoPrepare int
  | UpdateLoss fval string
  | UpdateSparsity "images option" string
  | UpdateDensity "images option" string
  | BatchFinished
  | EpochFinished images labels
  | PlotAdversarial adversarial_examples
  | PlotMask images labels
  | Tqdm int
  | FullForwardPass bool nn_module
  | AccuracySave accuracy images labels
  | TorchSave path checkpoint filesystem

text \<open>
  The collaborators that are not among the sources, or that belong to torch, are
  parameters: whether CUDA is available, the date, the data loaders, the layers found in
  the model, the forward pass, the loss, the backward pass (which leaves the gradient of
  the input batch, or none), the subclass's \<^verbatim>\<open>train_batch\<close>, the accuracy strategy's
  \<^verbatim>\<open>predict_proba\<close> and \<^verbatim>\<open>save\<close>, \<^verbatim>\<open>proba.max(dim=1)\<close> followed by \<^verbatim>\<open>argmax\<close>, the mask
  learning behind \<^verbatim>\<open>monitor.plot_mask\<close>, the full forward pass (plain or decorated for
  mutual information), and float arithmetic. A collaborator that is handed the model may
  change it, also when it raises.
\<close>

record collab =
  cuda_is_available :: bool
  strftime :: string
  get_data_loader :: "string \<Rightarrow> bool \<Rightarrow> loader"
  find_named_layers :: "nn_module \<Rightarrow> string list"
  model_forward :: "nn_module \<Rightarrow> images \<Rightarrow> images outcome \<times> nn_module"
  criterion_call :: "loss_fn \<Rightarrow> images \<Rightarrow> labels \<Rightarrow> fval outcome"
  loss_backward :: "nn_module \<Rightarrow> images \<Rightarrow> labels \<Rightarrow> fval \<Rightarrow> images option outcome \<times> nn_module"
  train_batch :: "nn_module \<Rightarrow> images \<Rightarrow> labels \<Rightarrow> (images \<times> fval) outcome \<times> nn_module"
  predict_proba :: "accuracy \<Rightarrow> images \<Rightarrow> images outcome"
  max_argmax :: "images \<Rightarrow> nat outcome"
  plot_mask :: "nn_module \<Rightarrow> accuracy \<Rightarrow> mask_learner \<Rightarrow> images \<Rightarrow> labels
                  \<Rightarrow> unit outcome \<times> nn_module"
  full_forward_pass :: "bool \<Rightarrow> nn_module \<Rightarrow> loader \<Rightarrow> (images \<times> labels) outcome \<times> nn_module"
  accuracy_save :: "accuracy \<Rightarrow> images \<Rightarrow> labels \<Rightarrow> accuracy outcome"
  fmul :: "fval \<Rightarrow> fval \<Rightarrow> fval"
  fadd :: "fval \<Rightarrow> fval \<Rightarrow> fval"
  mean_step :: "fval \<Rightarrow> nat \<Rightarrow> fval \<Rightarrow> fval"

text \<open>
  What the process holds besides the trainer: the files, the process-wide timer, what
  was printed, the warnings issued, the calls made, and the tensor objects of the attack
  generator.
\<close>

record world =
  fs :: filesystem
  timer :: batch_timer
  stdout :: "string list"
  warnings :: "string list"
  calls :: "call list"
  heap :: "images list"

record trainer = world +
  model :: nn_module
  criterion :: loss_fn
  dataset_name :: string
  checkpoint_dir :: path
  train_loader :: loader
  env_name :: string
  accuracy_measure :: accuracy
  monitor_is_active :: bool
  mask_trainer :: mask_learner
  trainer_class :: string

definition on_model :: "(nn_module \<Rightarrow> 'a outcome \<times> nn_module) \<Rightarrow> ('a, trainer) prog" where
  "on_model f s = (case f (model s) of (r, m) \<Rightarrow> (r, s\<lparr>model := m\<rparr>))"

definition log_call :: "call \<Rightarrow> (unit, trainer) prog" where
  "log_call c = modify (\<lambda>s. s\<lparr>calls := calls s @ [c]\<rparr>)"

definition print :: "string \<Rightarrow> (unit, trainer) prog" where
  "print msg = modify (\<lambda>s. s\<lparr>stdout := stdout s @ [msg]\<rparr>)"

definition warn :: "string \<Rightarrow> (unit, trainer) prog" where
  "warn msg = modify (\<lambda>s. s\<lparr>warnings := warnings s @ [msg]\<rparr>)"

text \<open>\<^verbatim>\<open>next(iter(self.train_loader))\<close>\<close>

definition next_batch :: "(images \<times> labels, trainer) prog" where
  "next_batch s =
     (case train_loader s of [] \<Rightarrow> (Raise StopIteration, s) | b # rest \<Rightarrow> (Return b, s))"


subsection \<open>Construction\<close>

definition run_name :: "collab \<Rightarrow> nn_module \<Rightarrow> string \<Rightarrow> string \<Rightarrow> loss_fn \<Rightarrow> string \<Rightarrow> string" where
  "run_name env m dataset cls crit env_suffix =
     (let name = strftime env @ '' '' @ class_name m @ '': '' @ dataset @ '' '' @ cls @ '' ''
                   @ criterion_class crit
      in if env_suffix \<noteq> [] then name @ '' '' @ env_suffix else name)"

text \<open>
  \<^verbatim>\<open>Trainer.__init__\<close>, for an instance of the subclass named \<open>cls\<close>. The state that a
  failed construction leaves in the process is dropped.
\<close>

definition trainer_init ::
  "collab \<Rightarrow> world \<Rightarrow> string \<Rightarrow> nn_module \<Rightarrow> loss_fn \<Rightarrow> string \<Rightarrow> accuracy option \<Rightarrow> string \<Rightarrow> path
     \<Rightarrow> trainer outcome" where
  "trainer_init env w cls model0 crit dataset accuracy_opt env_suffix ckpt_dir =
     (let model1 = (if cuda_is_available env then model_cuda model0 else model0);
          loader = get_data_loader env dataset True;
          timer1 = timer_init (timer w) (length loader);
          name = run_name env model1 dataset cls crit env_suffix;
          acc = (case accuracy_opt of
                   None \<Rightarrow> if is_pair_loss crit then new_accuracy AccuracyEmbedding
                           else new_accuracy AccuracyArgmax
                 | Some a \<Rightarrow> a);
          calls1 = calls w @ map RegisterLayer (find_named_layers env model1)
      in case loader of
           [] \<Rightarrow> Raise StopIteration
         | (images0, labels0) # rest \<Rightarrow>
             (case select0 images0 0 of
                Raise e \<Rightarrow> Raise e
              | Return image0 \<Rightarrow>
                  Return \<lparr>fs = fs w, timer = timer1, stdout = stdout w, warnings = warnings w,
                          calls = calls1, heap = heap w,
                          model = model1, criterion = crit, dataset_name = dataset,
                          checkpoint_dir = ckpt_dir, train_loader = loader, env_name = name,
                          accuracy_measure = acc, monitor_is_active = False,
                          mask_trainer = \<lparr>image_shape = shape image0\<rparr>, trainer_class = cls\<rparr>))"


subsection \<open>Checkpoints\<close>

definition checkpoint_path :: "trainer \<Rightarrow> path" where
  "checkpoint_path s = checkpoint_dir s @ [env_name s @ ''.pt'']"

definition state_dict :: "trainer \<Rightarrow> checkpoint" where
  "state_dict s =
     \<lparr>model_state = named_parameters (model s),
      epoch = timer_epoch (timer s),
      checkpoint_env_name = env_name s\<rparr>"

definition on_fs :: "(filesystem \<Rightarrow> 'a outcome \<times> filesystem) \<Rightarrow> ('a, trainer) prog" where
  "on_fs f s = (case f (fs s) of (r, f') \<Rightarrow> (r, s\<lparr>fs := f'\<rparr>))"

definition save :: "(unit, trainer) prog" where
  "save =
     seq (\<lambda>s. on_fs (\<lambda>f. mkdir_parents f (parent (checkpoint_path s))) s) (\<lambda>_.
     catch
       (seq (\<lambda>s. log_call (TorchSave (checkpoint_path s) (state_dict s) (fs s)) s) (\<lambda>_.
        (\<lambda>s. on_fs (\<lambda>f. torch_save f (state_dict s) (checkpoint_path s)) s)))
       (\<lambda>e. case e of PermissionError msg \<Rightarrow> Some (print msg) | _ \<Rightarrow> None))"

text \<open>
  \<^verbatim>\<open>torch.nn.Module.load_state_dict\<close>: every parameter of the model is looked up in the
  checkpoint's dictionary; an entry of the same shape is copied into the parameter in
  place, an entry of another shape is noted as a size mismatch and the parameter is left;
  under \<^verbatim>\<open>strict\<close>, keys missing on either side are noted too. Only after all parameters
  have been visited is a RuntimeError raised, when anything was noted.
\<close>

definition load_param :: "(string \<times> fval tensor) list \<Rightarrow> string \<times> fval tensor \<Rightarrow> string \<times> fval tensor" where
  "load_param sd np =
     (case map_of sd (fst np) of
        Some input \<Rightarrow>
          if shape input = shape (snd np) then (fst np, (snd np)\<lparr>elems := elems input\<rparr>) else np
      | None \<Rightarrow> np)"

definition size_mismatches :: "nn_module \<Rightarrow> (string \<times> fval tensor) list \<Rightarrow> string list" where
  "size_mismatches m sd =
     map fst (filter (\<lambda>np. case map_of sd (fst np) of
                              Some input \<Rightarrow> shape input \<noteq> shape (snd np)
                            | None \<Rightarrow> False) (named_parameters m))"

definition missing_keys :: "nn_module \<Rightarrow> (string \<times> fval tensor) list \<Rightarrow> string list" where
  "missing_keys m sd = filter (\<lambda>n. map_of sd n = None) (map fst (named_parameters m))"

definition unexpected_keys :: "nn_module \<Rightarrow> (string \<times> fval tensor) list \<Rightarrow> string list" where
  "unexpected_keys m sd = filter (\<lambda>n. n \<notin> set (map fst (named_parameters m))) (map fst sd)"

definition load_state_dict ::
  "(string \<times> fval tensor) list \<Rightarrow> bool \<Rightarrow> nn_module \<Rightarrow> unit outcome \<times> nn_module" where
  "load_state_dict sd strict m =
     (let m' = m\<lparr>named_parameters := map (load_param sd) (named_parameters m)\<rparr>;
          error_msgs = (if strict then unexpected_keys m sd @ missing_keys m sd else [])
                         @ size_mismatches m sd
      in if error_msgs \<noteq> []
         then (Raise (RuntimeError (''Error(s) in loading state_dict: '' @ concat error_msgs)), m')
         else (Return (), m'))"

definition monitor_open :: "string \<Rightarrow> (unit, trainer) prog" where
  "monitor_open name =
     seq (log_call (MonitorOpen name)) (\<lambda>_. modify (\<lambda>s. s\<lparr>monitor_is_active := True\<rparr>))"

definition restore :: "path option \<Rightarrow> bool \<Rightarrow> (checkpoint option, trainer) prog" where
  "restore checkpoint_path_arg strict s =
     (let p = (case checkpoint_path_arg of None \<Rightarrow> checkpoint_path s | Some q \<Rightarrow> q)
      in if \<not> path_exists (fs s) p
         then seq (print (''Checkpoint '' @ squote (path_str p)
                            @ '' doesn'' @ [CHR 0x27] @ ''t exist. Nothing to restore.''))
                (\<lambda>_. ret None) s
         else
           seq (pure_call (torch_load (fs s) p)) (\<lambda>checkpoint_state.
           seq (catch
                  (seq (on_model (load_state_dict (model_state checkpoint_state) strict))
                     (\<lambda>_. ret True))
                  (\<lambda>e. case e of
                          RuntimeError msg \<Rightarrow>
                            Some (seq (print (''Error is occurred while restoring '' @ path_str p
                                                @ '': '' @ msg)) (\<lambda>_. ret False))
                        | _ \<Rightarrow> None)) (\<lambda>loaded.
           if \<not> loaded then ret None
           else
             seq (modify (\<lambda>s. s\<lparr>env_name := checkpoint_env_name checkpoint_state\<rparr>)) (\<lambda>_.
             seq (modify (\<lambda>s. s\<lparr>timer := set_epoch (timer s) (epoch checkpoint_state)\<rparr>)) (\<lambda>_.
             seq (\<lambda>s. monitor_open (env_name s) s) (\<lambda>_.
             seq (print (''Restored model state from '' @ path_str p @ ''.'')) (\<lambda>_.
             ret (Some checkpoint_state))))))) s)"


subsection \<open>The mask-training hook and the attack generator\<close>

definition enter_eval :: "(model_mode, trainer) prog" where
  "enter_eval s = (case prepare_eval (model s) of (saved, m) \<Rightarrow> (Return saved, s\<lparr>model := m\<rparr>))"

definition leave_eval :: "model_mode \<Rightarrow> (unit, trainer) prog" where
  "leave_eval saved = modify (\<lambda>s. s\<lparr>model := mode_restore saved (model s)\<rparr>)"

definition train_mask :: "collab \<Rightarrow> (images \<times> labels, trainer) prog" where
  "train_mask env =
     seq next_batch (\<lambda>(images0, labels0).
     seq enter_eval (\<lambda>mode_saved.
     let images1 = (if cuda_is_available env then cuda images0 else images0) in
     seq (on_model (\<lambda>m. model_forward env m images1)) (\<lambda>outputs.
     seq (\<lambda>s. pure_call (predict_proba env (accuracy_measure s) outputs) s) (\<lambda>proba.
     seq (pure_call (max_argmax env proba)) (\<lambda>sample_max_proba.
     seq (pure_call (select0 images1 sample_max_proba)) (\<lambda>image1.
     seq (pure_call (select0 labels0 sample_max_proba)) (\<lambda>label1.
     seq (log_call (PlotMask image1 label1)) (\<lambda>_.
     seq (\<lambda>s. on_model (\<lambda>m. plot_mask env m (accuracy_measure s) (mask_trainer s) image1 label1) s) (\<lambda>_.
     seq (leave_eval mode_saved) (\<lambda>_.
     ret (image1, label1)))))))))))"

text \<open>Tensor objects: a new object, reading one, and the in-place operations on one.\<close>

definition alloc :: "images \<Rightarrow> (nat, trainer) prog" where
  "alloc t s = (Return (length (heap s)), s\<lparr>heap := heap s @ [t]\<rparr>)"

definition deref :: "nat \<Rightarrow> (images, trainer) prog" where
  "deref a s =
     (if a < length (heap s) then (Return (heap s ! a), s)
      else (Raise (OtherError ''no such tensor''), s))"

definition update_tensor :: "nat \<Rightarrow> (images \<Rightarrow> images) \<Rightarrow> (unit, trainer) prog" where
  "update_tensor a f = seq (deref a) (\<lambda>t. modify (\<lambda>s. s\<lparr>heap := (heap s)[a := f t]\<rparr>))"

text \<open>\<^verbatim>\<open>images.cuda()\<close> on an object: the same object when it is on the device already.\<close>

definition tensor_cuda :: "nat \<Rightarrow> (nat, trainer) prog" where
  "tensor_cuda a =
     seq (deref a) (\<lambda>t. if device t = CUDA then ret a else alloc (cuda t))"

definition clone :: "nat \<Rightarrow> (nat, trainer) prog" where
  "clone a = seq (deref a) alloc"

definition requires_grad_set :: "nat \<Rightarrow> bool \<Rightarrow> (unit, trainer) prog" where
  "requires_grad_set a b = update_tensor a (\<lambda>t. t\<lparr>requires_grad := b\<rparr>)"

text \<open>\<^verbatim>\<open>noise_ampl * images.grad\<close>\<close>

definition scale :: "collab \<Rightarrow> fval \<Rightarrow> images \<Rightarrow> images" where
  "scale env c g = g\<lparr>elems := map (fmul env c) (elems g), requires_grad := False\<rparr>"

text \<open>
  \<^verbatim>\<open>images += adv_noise\<close>: the object keeps its shape; an operand of another shape is
  refused (a gradient has the shape of its tensor, so broadcasting is not modelled).
\<close>

definition inplace_add :: "collab \<Rightarrow> nat \<Rightarrow> images \<Rightarrow> (unit, trainer) prog" where
  "inplace_add env a u =
     seq (deref a) (\<lambda>t.
     if shape u \<noteq> shape t then raise (RuntimeError ''shape mismatch'')
     else update_tensor a (\<lambda>t. t\<lparr>elems := map2 (fadd env) (elems t) (elems u)\<rparr>))"

definition adversarial_step :: "collab \<Rightarrow> fval \<Rightarrow> nat \<Rightarrow> labels \<Rightarrow> (unit, trainer) prog" where
  "adversarial_step env noise_ampl a labels1 =
     seq (deref a) (\<lambda>x.
     seq (on_model (\<lambda>m. model_forward env m x)) (\<lambda>outputs.
     seq (\<lambda>s. pure_call (criterion_call env (criterion s) outputs labels1) s) (\<lambda>loss.
     seq (on_model (\<lambda>m. loss_backward env m x labels1 loss)) (\<lambda>grad.
     case grad of
       None \<Rightarrow> raise TypeError
     | Some g \<Rightarrow> inplace_add env a (scale env noise_ampl g)))))"

definition get_adversarial_examples ::
  "collab \<Rightarrow> fval \<Rightarrow> int \<Rightarrow> (adversarial_examples, trainer) prog" where
  "get_adversarial_examples env noise_ampl n_iter =
     seq next_batch (\<lambda>(images0, labels0).
     seq (alloc images0) (\<lambda>a0.
     seq (if cuda_is_available env then tensor_cuda a0 else ret a0) (\<lambda>a.
     let labels1 = (if cuda_is_available env then cuda labels0 else labels0) in
     seq (clone a) (\<lambda>images_orig.
     seq (requires_grad_set a True) (\<lambda>_.
     seq enter_eval (\<lambda>mode_saved.
     seq (for_loop (py_range 0 n_iter) (\<lambda>i _. adversarial_step env noise_ampl a labels1) ()) (\<lambda>_.
     seq (requires_grad_set a False) (\<lambda>_.
     seq (leave_eval mode_saved) (\<lambda>_.
     ret \<lparr>original = images_orig, adversarial = a, adv_labels = labels1\<rparr>)))))))))"


subsection \<open>Epochs\<close>

text \<open>
  Modelled from the spec: \<^verbatim>\<open>monitor.var_online.MeanOnline\<close> is not among the sources. The spec
  gives it a count and an accumulated mean, updated in constant time, with the mean of a
  single value being that value and the mean of no value an error.
\<close>

record mean_online =
  count :: nat
  mean :: "fval option"

definition mean_update :: "collab \<Rightarrow> mean_online \<Rightarrow> fval \<Rightarrow> mean_online" where
  "mean_update env acc x =
     \<lparr>count = Suc (count acc),
      mean = Some (case mean acc of None \<Rightarrow> x | Some m \<Rightarrow> mean_step env m (Suc (count acc)) x)\<rparr>"

definition get_mean :: "mean_online \<Rightarrow> fval outcome" where
  "get_mean acc = (case mean acc of None \<Rightarrow> Raise (OtherError ''no observations'') | Some m \<Rightarrow> Return m)"

text \<open>
  \<^verbatim>\<open>monitor.batch_finished(model)\<close>: the event is pushed; the timer counts it (see the timer).
\<close>

definition monitor_batch_finished :: "(unit, trainer) prog" where
  "monitor_batch_finished =
     seq (log_call BatchFinished) (\<lambda>_. modify (\<lambda>s. s\<lparr>timer := timer_tick (timer s)\<rparr>))"

definition nan_message :: "string \<Rightarrow> string" where
  "nan_message name = ''NaN parameters in '' @ squote name"

definition warn_nan_parameters :: "(unit, trainer) prog" where
  "warn_nan_parameters s =
     for_loop (named_parameters (model s))
       (\<lambda>(name, param) _. if isnan_any param then warn (nan_message name) else ret ()) () s"

definition train_epoch_batch ::
  "collab \<Rightarrow> images \<times> labels \<Rightarrow> images option \<times> mean_online \<Rightarrow> (images option \<times> mean_online, trainer) prog" where
  "train_epoch_batch env batch acc =
     (let images1 = (if cuda_is_available env then cuda (fst batch) else fst batch);
          labels1 = (if cuda_is_available env then cuda (snd batch) else snd batch)
      in seq (on_model (\<lambda>m. train_batch env m images1 labels1)) (\<lambda>(outputs, loss).
         seq warn_nan_parameters (\<lambda>_.
         seq monitor_batch_finished (\<lambda>_.
         ret (Some outputs, mean_update env (snd acc) loss)))))"

definition train_epoch :: "collab \<Rightarrow> int \<Rightarrow> (unit, trainer) prog" where
  "train_epoch env epoch_id =
     seq (log_call (Tqdm epoch_id)) (\<lambda>_.
     seq (\<lambda>s. for_loop (train_loader s) (train_epoch_batch env) (None, \<lparr>count = 0, mean = None\<rparr>) s)
       (\<lambda>(outputs, loss_batch_average).
     seq (pure_call (get_mean loss_batch_average)) (\<lambda>loss_mean.
     seq (log_call (UpdateLoss loss_mean ''batch'')) (\<lambda>_.
     (\<lambda>s. if accuracy_class (accuracy_measure s) \<noteq> AccuracyArgmax
          then seq (log_call (UpdateSparsity outputs ''batch''))
                 (\<lambda>_. log_call (UpdateDensity outputs ''batch'')) s
          else ret () s)))))"


subsection \<open>The run\<close>

text \<open>
  \<^verbatim>\<open>_epoch_finished\<close>, and the block of \<^verbatim>\<open>train\<close> that runs on an evaluation epoch. The
  evaluation loader is the training loader's dataset in its own order; shuffling is not
  modelled, so the full forward pass is handed the training loader. The attack generator
  is called with its defaults, amplitude 100 and 10 iterations.
\<close>

definition epoch_finished :: "collab \<Rightarrow> int \<Rightarrow> images \<Rightarrow> labels \<Rightarrow> (fval, trainer) prog" where
  "epoch_finished env epoch_id outputs labels1 =
     seq (\<lambda>s. pure_call (criterion_call env (criterion s) outputs labels1) s) (\<lambda>loss.
     seq (log_call (UpdateLoss loss ''full train'')) (\<lambda>_.
     seq save (\<lambda>_.
     ret loss)))"

definition evaluate_epoch :: "collab \<Rightarrow> bool \<Rightarrow> bool \<Rightarrow> bool \<Rightarrow> int \<Rightarrow> (unit, trainer) prog" where
  "evaluate_epoch env decorated adversarial_flag mask_explain epoch_id =
     seq (\<lambda>s. log_call (FullForwardPass decorated (model s)) s) (\<lambda>_.
     seq (\<lambda>s. on_model (\<lambda>m. full_forward_pass env decorated m (train_loader s)) s)
       (\<lambda>(outputs_full, labels_full).
     seq (\<lambda>s. log_call (AccuracySave (accuracy_measure s) outputs_full labels_full) s) (\<lambda>_.
     seq (\<lambda>s. pure_call (accuracy_save env (accuracy_measure s) outputs_full labels_full) s) (\<lambda>acc.
     seq (modify (\<lambda>s. s\<lparr>accuracy_measure := acc\<rparr>)) (\<lambda>_.
     seq (log_call (EpochFinished outputs_full labels_full)) (\<lambda>_.
     seq (if adversarial_flag
          then seq (get_adversarial_examples env (Finite 100) 10) (\<lambda>ex. log_call (PlotAdversarial ex))
          else ret ()) (\<lambda>_.
     seq (if mask_explain then seq (train_mask env) (\<lambda>_. ret ()) else ret ()) (\<lambda>_.
     seq (epoch_finished env epoch_id outputs_full labels_full) (\<lambda>_.
     ret ())))))))))"

text \<open>
  The body of the loop over the epochs, and \<^verbatim>\<open>train\<close>. \<^verbatim>\<open>monitor_functions\<close> does nothing
  in this class. \<^verbatim>\<open>range\<close> reads the timer once, before the first epoch.
\<close>

definition train_loop_body :: "collab \<Rightarrow> int \<Rightarrow> bool \<Rightarrow> bool \<Rightarrow> bool \<Rightarrow> int \<Rightarrow> unit \<Rightarrow> (unit, trainer) prog" where
  "train_loop_body env epoch_update_step decorated adversarial_flag mask_explain epoch_id u =
     seq (train_epoch env epoch_id) (\<lambda>_.
     seq (py_mod epoch_id epoch_update_step) (\<lambda>r.
     if r = 0 then evaluate_epoch env decorated adversarial_flag mask_explain epoch_id
     else ret ()))"

definition log_trainer :: "(unit, trainer) prog" where
  "log_trainer =
     seq (\<lambda>s. log_call (MonitorLog (''Criterion: '' @ criterion_class (criterion s))) s) (\<lambda>_.
     log_call (MonitorLog ''MaskTrainer''))"

definition train :: "collab \<Rightarrow> int \<Rightarrow> int \<Rightarrow> int \<Rightarrow> bool \<Rightarrow> bool \<Rightarrow> (unit, trainer) prog" where
  "train env n_epoch epoch_update_step mutual_info_layers adversarial_flag mask_explain =
     seq (\<lambda>s. print (class_name (model s)) s) (\<lambda>_.
     seq (\<lambda>s. if \<not> monitor_is_active s
              then seq (monitor_open (env_name s)) (\<lambda>_. log_call MonitorClear) s
              else ret () s) (\<lambda>_.
     seq (log_call MonitorLogModel) (\<lambda>_.
     seq (log_call MonitorLogSelf) (\<lambda>_.
     seq log_trainer (\<lambda>_.
     seq (\<lambda>s. print (''Training '' @ squote (class_name (model s))) s) (\<lambda>_.
     seq (if 0 < mutual_info_layers then log_call (MutualInfoPrepare mutual_info_layers)
          else ret ()) (\<lambda>_.
     (\<lambda>s. for_loop
            (py_range (int (timer_epoch (timer s))) (int (timer_epoch (timer s)) + n_epoch))
            (train_loop_body env epoch_update_step (0 < mutual_info_layers) adversarial_flag
               mask_explain) () s))))))))"



section \<open>What a run lets one observe\<close>

text \<open>
  The warnings that the scan after a batch issues for a model: one for each named
  parameter that holds a NaN, in the order of the parameters.
\<close>

definition nan_warnings :: "nn_module \<Rightarrow> string list" where
  "nan_warnings m =
     map (\<lambda>np. nan_message (fst np)) (filter (\<lambda>np. isnan_any (snd np)) (named_parameters m))"

text \<open>
  The models that the batches of one epoch leave behind, batch after batch, as far as
  \<^verbatim>\<open>train_batch\<close> returns; and whether it returns for every batch of the epoch.
\<close>

fun models_after_batches :: "collab \<Rightarrow> nn_module \<Rightarrow> loader \<Rightarrow> nn_module list" where
  "models_after_batches env m [] = []"
| "models_after_batches env m (b # bs) =
     (case train_batch env m (if cuda_is_available env then cuda (fst b) else fst b)
             (if cuda_is_available env then cuda (snd b) else snd b) of
        (Return r, m') \<Rightarrow> m' # models_after_batches env m' bs
      | (Raise e, m') \<Rightarrow> [])"

fun train_batches_return :: "collab \<Rightarrow> nn_module \<Rightarrow> loader \<Rightarrow> bool" where
  "train_batches_return env m [] = True"
| "train_batches_return env m (b # bs) =
     (case train_batch env m (if cuda_is_available env then cuda (fst b) else fst b)
             (if cuda_is_available env then cuda (snd b) else snd b) of
        (Return r, m') \<Rightarrow> train_batches_return env m' bs
      | (Raise e, m') \<Rightarrow> False)"

text \<open>
  The calls that make the cadence of a run: the start of an epoch (its progress bar is
  labelled with the epoch), the full forward pass, the calibration of the accuracy
  strategy, the epoch-finished event and the checkpoint write.
\<close>

datatype cadence = Epoch int | Evaluation | Calibration | EpochFinishedEvent | CheckpointWrite

fun cadence_of :: "call \<Rightarrow> cadence list" where
  "cadence_of (Tqdm e) = [Epoch e]"
| "cadence_of (FullForwardPass decorated m) = [Evaluation]"
| "cadence_of (AccuracySave a outputs labels1) = [Calibration]"
| "cadence_of (EpochFinished outputs labels1) = [EpochFinishedEvent]"
| "cadence_of (TorchSave p obj f) = [CheckpointWrite]"
| "cadence_of _ = []"

definition cadence_trace :: "call list \<Rightarrow> cadence list" where
  "cadence_trace cs = concat (map cadence_of cs)"

definition is_cadence_call :: "call \<Rightarrow> bool" where
  "is_cadence_call c \<longleftrightarrow> cadence_of c \<noteq> []"








text \<open>
  What a program does to the cadence and to the timer whenever it returns, for a trainer
  whose training loader is \<open>ld\<close>: the loader and the batches per epoch stay, the timer has
  counted \<open>d\<close> more batches, and the calls made add \<open>tr\<close> to the cadence.
\<close>

definition effect :: "loader \<Rightarrow> ('a, trainer) prog \<Rightarrow> cadence list \<Rightarrow> nat \<Rightarrow> bool" where
  "effect ld f tr d \<longleftrightarrow>
     (\<forall>s r s'. train_loader s = ld \<and> f s = (Return r, s') \<longrightarrow>
        train_loader s' = ld \<and>
        batches_in_epoch (timer s') = batches_in_epoch (timer s) \<and>
        batch_id (timer s') = batch_id (timer s) + d \<and>
        (\<exists>cs. calls s' = calls s @ cs \<and> cadence_trace cs = tr))"

text \<open>The same, for a trainer whose timer is \<open>tm\<close> when the program starts.\<close>

definition effect_from ::
  "loader \<Rightarrow> batch_timer \<Rightarrow> ('a, trainer) prog \<Rightarrow> cadence list \<Rightarrow> nat \<Rightarrow> bool" where
  "effect_from ld tm f tr d \<longleftrightarrow>
     (\<forall>s r s'. train_loader s = ld \<and> timer s = tm \<and> f s = (Return r, s') \<longrightarrow>
        train_loader s' = ld \<and>
        batches_in_epoch (timer s') = batches_in_epoch tm \<and>
        batch_id (timer s') = batch_id tm + d \<and>
        (\<exists>cs. calls s' = calls s @ cs \<and> cadence_trace cs = tr))"

text \<open>
  The cadence of one epoch of a run with update step \<open>m\<close>: the epoch, followed by the
  evaluation, the calibration, the epoch-finished event and the checkpoint write when the
  epoch is a multiple of \<open>m\<close>.
\<close>

definition epoch_cadence :: "int \<Rightarrow> int \<Rightarrow> cadence list" where
  "epoch_cadence m e =
     Epoch e # (if e mod m = 0 then [Evaluation, Calibration, EpochFinishedEvent, CheckpointWrite]
                else [])"

text \<open>
  The timer agrees with the trainer when it counts as many batches per epoch as the
  training loader yields, and that is at least one. The constructor leaves it so.
\<close>

definition timer_consistent :: "trainer \<Rightarrow> bool" where
  "timer_consistent s \<longleftrightarrow>
     batches_in_epoch (timer s) = length (train_loader s) \<and> train_loader s \<noteq> []"

text \<open>
  Where the attack generator keeps its tensors: the working batch \<open>a\<close> was allocated before
  the clone \<open>io\<close>, the clone holds \<open>t\<close>, and the working batch has the shape \<open>shp\<close>.
\<close>

definition heap_frame :: "nat \<Rightarrow> nat \<Rightarrow> images \<Rightarrow> nat list \<Rightarrow> trainer \<Rightarrow> bool" where
  "heap_frame a io t shp s \<longleftrightarrow>
     a < io \<and> io < length (heap s) \<and> heap s ! io = t \<and> shape (heap s ! a) = shp"

section \<open>Example inputs\<close>

text \<open>
  A small run: one batch of two samples, a model of two parameters, collaborators that
  return, and arithmetic on the finite floats only.
\<close>

definition ex_images :: images where
  "ex_images = \<lparr>shape = [2, 2], elems = [Finite 1, Finite 2, Finite 3, Finite 4],
                 device = CPU, requires_grad = False\<rparr>"

definition ex_labels :: labels where
  "ex_labels = \<lparr>shape = [2], elems = [0, 1], device = CPU, requires_grad = False\<rparr>"

fun ex_fadd :: "fval \<Rightarrow> fval \<Rightarrow> fval" where
  "ex_fadd (Finite x) (Finite y) = Finite (x + y)"
| "ex_fadd _ _ = NaN"

fun ex_fmul :: "fval \<Rightarrow> fval \<Rightarrow> fval" where
  "ex_fmul (Finite x) (Finite y) = Finite (x * y)"
| "ex_fmul _ _ = NaN"

definition ex_env :: collab where
  "ex_env =
     \<lparr>cuda_is_available = False,
      strftime = ''2019.01.01'',
      get_data_loader = (\<lambda>name is_train. [(ex_images, ex_labels)]),
      find_named_layers = (\<lambda>m. [''fc'']),
      model_forward = (\<lambda>m x. (Return x, m)),
      criterion_call = (\<lambda>c outputs l. Return (Finite 0)),
      loss_backward = (\<lambda>m x l loss. (Return (Some (x\<lparr>elems := map (\<lambda>v. Finite 1) (elems x)\<rparr>)), m)),
      train_batch = (\<lambda>m x l. (Return (x, Finite 0), m)),
      predict_proba = (\<lambda>a outputs. Return outputs),
      max_argmax = (\<lambda>proba. Return 0),
      plot_mask = (\<lambda>m a mt x l. (Return (), m)),
      full_forward_pass = (\<lambda>decorated m ld. (Return (ex_images, ex_labels), m)),
      accuracy_save = (\<lambda>a outputs l. Return (a\<lparr>calibration := elems outputs\<rparr>)),
      fmul = ex_fmul,
      fadd = ex_fadd,
      mean_step = (\<lambda>m n x. m)\<rparr>"

definition ex_param :: "fval list \<Rightarrow> fval tensor" where
  "ex_param vs = \<lparr>shape = [length vs], elems = vs, device = CPU, requires_grad = True\<rparr>"

definition ex_model :: nn_module where
  "ex_model =
     \<lparr>class_name = ''MLP'', training = True,
      named_parameters = [(''fc.weight'', ex_param [Finite 1, Finite 2]),
                          (''fc.bias'', ex_param [Finite 0])]\<rparr>"

definition ex_criterion :: loss_fn where
  "ex_criterion = \<lparr>criterion_class = ''CrossEntropyLoss'', is_pair_loss = False\<rparr>"

definition ex_world :: world where
  "ex_world =
     \<lparr>fs = \<lparr>dirs = [], files = Map.empty, read_only = []\<rparr>,
      timer = \<lparr>batches_in_epoch = 1, batch_id = 0\<rparr>,
      stdout = [], warnings = [], calls = [], heap = []\<rparr>"

definition ex_trainer :: trainer where
  "ex_trainer =
     \<lparr>fs = \<lparr>dirs = [], files = Map.empty, read_only = []\<rparr>,
      timer = \<lparr>batches_in_epoch = 1, batch_id = 0\<rparr>,
      stdout = [], warnings = [], calls = [], heap = [],
      model = ex_model, criterion = ex_criterion, dataset_name = ''MNIST'',
      checkpoint_dir = [''checkpoints''], train_loader = [(ex_images, ex_labels)],
      env_name = ''run'', accuracy_measure = new_accuracy AccuracyArgmax,
      monitor_is_active = False, mask_trainer = \<lparr>image_shape = [2]\<rparr>,
      trainer_class = ''TrainerGrad''\<rparr>"


text \<open>A checkpoint of the example run whose bias has another shape than the model's.\<close>

definition ex_checkpoint :: checkpoint where
  "ex_checkpoint =
     \<lparr>model_state = [(''fc.weight'', ex_param [Finite 5, Finite 6]),
                     (''fc.bias'', ex_param [Finite 7, Finite 8])],
      epoch = 3, checkpoint_env_name = ''earlier run''\<rparr>"

definition ex_restore_trainer :: trainer where
  "ex_restore_trainer =
     ex_trainer\<lparr>fs := \<lparr>dirs = [[''checkpoints'']],
                       files = [[''checkpoints'', ''run.pt''] \<mapsto> CheckpointFile ex_checkpoint],
                       read_only = []\<rparr>\<rparr>"

text \<open>A model whose weight holds an infinity and no NaN.\<close>

definition ex_inf_trainer :: trainer where
  "ex_inf_trainer =
     ex_trainer\<lparr>model := ex_model\<lparr>named_parameters := [(''fc.weight'', ex_param [PosInf, Finite 2])]\<rparr>\<rparr>"

text \<open>A model whose weight holds a NaN.\<close>

definition ex_nan_trainer :: trainer where
  "ex_nan_trainer =
     ex_trainer\<lparr>model := ex_model\<lparr>named_parameters := [(''fc.weight'', ex_param [NaN, Finite 2]),
                                                       (''fc.bias'', ex_param [Finite 0])]\<rparr>\<rparr>"

text \<open>Collaborators whose forward pass raises.\<close>

definition ex_failing_env :: collab where
  "ex_failing_env = ex_env\<lparr>model_forward := \<lambda>m x. (Raise (RuntimeError ''forward''), m)\<rparr>"


text \<open>
  Two trainers in one process: the first over the one-batch loader, then a second over a
  loader of two batches, whose construction initialises the timer that both share.
\<close>

definition ex_env2 :: collab where
  "ex_env2 = ex_env\<lparr>get_data_loader := \<lambda>name is_train. [(ex_images, ex_labels), (ex_images, ex_labels)]\<rparr>"

definition ex_first_trainer :: trainer where
  "ex_first_trainer =
     ex_trainer\<lparr>calls := [RegisterLayer ''fc''],
                env_name := ''2019.01.01 MLP: MNIST TrainerGrad CrossEntropyLoss''\<rparr>"

definition ex_second_trainer :: trainer where
  "ex_second_trainer =
     ex_trainer\<lparr>timer := \<lparr>batches_in_epoch = 2, batch_id = 0\<rparr>,
                calls := [RegisterLayer ''fc'', RegisterLayer ''fc''],
                dataset_name := ''CIFAR'',
                train_loader := [(ex_images, ex_labels), (ex_images, ex_labels)],
                env_name := ''2019.01.01 MLP: CIFAR TrainerGrad CrossEntropyLoss''\<rparr>"

text \<open>The first trainer in the process as the second construction left it.\<close>

definition ex_first_after_second :: trainer where
  "ex_first_after_second =
     ex_first_trainer\<lparr>timer := timer ex_second_trainer, calls := calls ex_second_trainer\<rparr>"


section \<open>Properties\<close>

lemmas prog_defs = ret_def raise_def seq_def catch_def pure_call_def modify_def on_model_def
  on_fs_def log_call_def print_def warn_def next_batch_def

lemmas heap_defs = alloc_def deref_def update_tensor_def tensor_cuda_def clone_def requires_grad_set_def
  enter_eval_def leave_eval_def prepare_eval_def mode_restore_def

lemma seq_ReturnE:
  assumes "seq f g s = (Return r, s')"
  obtains x s1 where "f s = (Return x, s1)" and "g x s1 = (Return r, s')"
  using assms by (auto simp: seq_def split: prod.splits outcome.splits)

lemma cadence_trace_simps [simp]:
  "cadence_trace [] = []"
  "cadence_trace (c # cs) = cadence_of c @ cadence_trace cs"
  "cadence_trace (cs @ ds) = cadence_trace cs @ cadence_trace ds"
  by (simp_all add: cadence_trace_def)

lemma for_loop_invariant:
  assumes "for_loop xs body acc s = (Return r, s')"
    and "I s"
    and "\<And>x acc s r s'. I s \<Longrightarrow> body x acc s = (Return r, s') \<Longrightarrow> I s'"
  shows "I s'"
  using assms(1,2)
proof (induction xs arbitrary: acc s)
  case Nil
  then show ?case by (simp add: ret_def)
next
  case (Cons x xs)
  from Cons.prems(1) obtain acc1 s1 where
    "body x acc s = (Return acc1, s1)" and "for_loop xs body acc1 s1 = (Return r, s')"
    by (auto elim: seq_ReturnE)
  with Cons.IH Cons.prems(2) assms(3) show ?case by blast
qed

lemmas eval_defs = prog_defs heap_defs train_def train_loop_body_def train_epoch_def
  train_epoch_batch_def warn_nan_parameters_def monitor_batch_finished_def nan_message_def
  evaluate_epoch_def epoch_finished_def save_def py_range_def py_mod_def
  monitor_open_def log_trainer_def get_mean_def mean_update_def new_accuracy_def
  checkpoint_path_def state_dict_def os_mkdir_def torch_save_def is_dir_def path_exists_def
  parent_def path_str_def isnan_any_def timer_tick_def timer_epoch_def
  train_mask_def get_adversarial_examples_def adversarial_step_def inplace_add_def scale_def
  select0_def cuda_def squote_def Let_def upt_rec
  ex_env_def ex_failing_env_def ex_trainer_def ex_model_def ex_param_def ex_criterion_def
  ex_images_def ex_labels_def

subsection \<open>Construction\<close>

text \<open>
  C9. A trainer constructed without an accuracy strategy measures accuracy with the
  embedding strategy when the loss is a pair loss and with the argmax strategy for every
  other loss; a strategy that is supplied is used as it is.
\<close>

theorem trainer_init_accuracy_strategy:
  assumes "trainer_init env w cls m crit dataset accuracy_opt env_suffix ckpt_dir = Return t"
  shows "accuracy_measure t =
           (case accuracy_opt of
              None \<Rightarrow> if is_pair_loss crit then new_accuracy AccuracyEmbedding
                      else new_accuracy AccuracyArgmax
            | Some a \<Rightarrow> a)"
  using assms
  by (auto simp: trainer_init_def Let_def split: list.splits outcome.splits)

theorem trainer_init_accuracy_strategy_witness:
  "\<exists>t. trainer_init ex_env ex_world ''TrainerGrad'' ex_model ex_criterion ''MNIST'' None []
          [''checkpoints''] = Return t
       \<and> accuracy_measure t = new_accuracy AccuracyArgmax"
proof -
  have "\<exists>t. trainer_init ex_env ex_world ''TrainerGrad'' ex_model ex_criterion ''MNIST'' None []
               [''checkpoints''] = Return t"
    by (simp add: trainer_init_def ex_env_def ex_images_def select0_def Let_def)
  then obtain t where
    t: "trainer_init ex_env ex_world ''TrainerGrad'' ex_model ex_criterion ''MNIST'' None []
          [''checkpoints''] = Return t" ..
  from trainer_init_accuracy_strategy [OF t]
  have "accuracy_measure t = new_accuracy AccuracyArgmax"
    by (simp add: ex_criterion_def)
  with t show ?thesis by blast
qed

text \<open>
  C10. Construction draws one batch from the training loader and seeds the mask trainer
  with the shape of its first image; when the training loader is empty the construction
  raises StopIteration and no trainer is produced.
\<close>

theorem trainer_init_draws_batch:
  "(get_data_loader env dataset True = [] \<longrightarrow>
      trainer_init env w cls m crit dataset accuracy_opt env_suffix ckpt_dir = Raise StopIteration) \<and>
   (\<forall>t. trainer_init env w cls m crit dataset accuracy_opt env_suffix ckpt_dir = Return t \<longrightarrow>
      (\<exists>images0 labels0 rest image0.
          get_data_loader env dataset True = (images0, labels0) # rest \<and>
          train_loader t = (images0, labels0) # rest \<and>
          select0 images0 0 = Return image0 \<and>
          image_shape (mask_trainer t) = shape image0))"
  by (auto simp: trainer_init_def Let_def split: list.splits outcome.splits)

theorem trainer_init_draws_batch_witness:
  "trainer_init (ex_env\<lparr>get_data_loader := \<lambda>name is_train. []\<rparr>) ex_world ''TrainerGrad'' ex_model
      ex_criterion ''MNIST'' None [] [''checkpoints''] = Raise StopIteration \<and>
   (\<exists>t. trainer_init ex_env ex_world ''TrainerGrad'' ex_model ex_criterion ''MNIST'' None []
           [''checkpoints''] = Return t \<and> image_shape (mask_trainer t) = [2])"
proof -
  have "\<exists>t. trainer_init ex_env ex_world ''TrainerGrad'' ex_model ex_criterion ''MNIST'' None []
               [''checkpoints''] = Return t"
    by (simp add: trainer_init_def ex_env_def ex_images_def select0_def Let_def)
  then obtain t where
    t: "trainer_init ex_env ex_world ''TrainerGrad'' ex_model ex_criterion ''MNIST'' None []
          [''checkpoints''] = Return t" ..
  with trainer_init_draws_batch [of ex_env "''MNIST''" ex_world "''TrainerGrad''" ex_model
         ex_criterion None "[]" "[''checkpoints'']"]
  have "image_shape (mask_trainer t) = [2]"
    by (auto simp: ex_env_def ex_images_def select0_def)
  moreover
  from trainer_init_draws_batch [of "ex_env\<lparr>get_data_loader := \<lambda>name is_train. []\<rparr>" "''MNIST''"
         ex_world "''TrainerGrad''" ex_model ex_criterion None "[]" "[''checkpoints'']"]
  have "trainer_init (ex_env\<lparr>get_data_loader := \<lambda>name is_train. []\<rparr>) ex_world ''TrainerGrad''
          ex_model ex_criterion ''MNIST'' None [] [''checkpoints''] = Raise StopIteration"
    by simp
  ultimately show ?thesis using t by blast
qed


subsection \<open>Checkpoints\<close>

text \<open>
  C5. When the checkpoint file (the trainer's own path, or the path given) does not
  exist, restore returns None without raising; the model's parameters, the epoch counter
  and the run identifier are unchanged: only the report is printed.
\<close>

theorem restore_missing_checkpoint:
  assumes "\<not> path_exists (fs s) (case arg of None \<Rightarrow> checkpoint_path s | Some q \<Rightarrow> q)"
  shows "fst (restore arg strict s) = Return None \<and>
         named_parameters (model (snd (restore arg strict s))) = named_parameters (model s) \<and>
         timer_epoch (timer (snd (restore arg strict s))) = timer_epoch (timer s) \<and>
         env_name (snd (restore arg strict s)) = env_name s \<and>
         snd (restore arg strict s) = s\<lparr>stdout := stdout (snd (restore arg strict s))\<rparr>"
  using assms by (simp add: restore_def prog_defs)

theorem restore_missing_checkpoint_witness:
  "\<not> path_exists (fs ex_trainer) (checkpoint_path ex_trainer) \<and>
   fst (restore None True ex_trainer) = Return None \<and>
   named_parameters (model (snd (restore None True ex_trainer))) = named_parameters ex_model \<and>
   env_name (snd (restore None True ex_trainer)) = ''run''"
proof -
  have missing: "\<not> path_exists (fs ex_trainer)
                     (case None of None \<Rightarrow> checkpoint_path ex_trainer | Some q \<Rightarrow> q)"
    by (simp add: ex_trainer_def path_exists_def is_dir_def checkpoint_path_def)
  from restore_missing_checkpoint [OF missing, of True] missing
  show ?thesis by (simp add: ex_trainer_def)
qed

text \<open>
  C7. A permission failure while the checkpoint is persisted is reported and does not
  reach the caller. The code does this for the write only: here the checkpoint directory
  has to be created inside a write-protected directory, and save raises the
  PermissionError of the directory creation.
\<close>

theorem save_mkdir_permission_error:
  "fst (save (ex_trainer\<lparr>fs := \<lparr>dirs = [[''data'']], files = Map.empty, read_only = [[''data'']]\<rparr>,
                         checkpoint_dir := [''data'', ''checkpoints'']\<rparr>))
     = Raise (PermissionError ''/data/checkpoints'')"
  by (simp add: save_def prog_defs ex_trainer_def checkpoint_path_def parent_def os_mkdir_def
        path_exists_def is_dir_def path_str_def)

text \<open>
  The same failure at the write itself (the directory exists and is write-protected) is
  caught: save returns and the message is printed.
\<close>

lemma save_catches_torch_save_permission_error:
  "fst (save (ex_trainer\<lparr>fs := \<lparr>dirs = [[''checkpoints'']], files = Map.empty,
                                 read_only = [[''checkpoints'']]\<rparr>\<rparr>)) = Return () \<and>
   stdout (snd (save (ex_trainer\<lparr>fs := \<lparr>dirs = [[''checkpoints'']], files = Map.empty,
                                 read_only = [[''checkpoints'']]\<rparr>\<rparr>))) = [''/checkpoints/run.pt'']"
  by (simp add: save_def prog_defs ex_trainer_def checkpoint_path_def parent_def os_mkdir_def
        path_exists_def is_dir_def path_str_def torch_save_def)

text \<open>
  C6. A restore under \<^verbatim>\<open>strict=True\<close> from an existing checkpoint of which some parameter
  has another shape than the model's does not raise: the error is printed, None is
  returned, and the run identifier and the timer are as before. The model is as
  \<^verbatim>\<open>load_state_dict\<close> left it: a parameter whose entry in the checkpoint has its shape
  holds the checkpoint's values, every other parameter holds its own.
\<close>

theorem restore_size_mismatch:
  assumes "path_exists (fs s) (case arg of None \<Rightarrow> checkpoint_path s | Some q \<Rightarrow> q)"
    and "torch_load (fs s) (case arg of None \<Rightarrow> checkpoint_path s | Some q \<Rightarrow> q) = Return ck"
    and "size_mismatches (model s) (model_state ck) \<noteq> []"
  shows "fst (restore arg True s) = Return None \<and>
         env_name (snd (restore arg True s)) = env_name s \<and>
         timer (snd (restore arg True s)) = timer s \<and>
         named_parameters (model (snd (restore arg True s)))
           = map (load_param (model_state ck)) (named_parameters (model s)) \<and>
         length (stdout (snd (restore arg True s))) = Suc (length (stdout s))"
  using assms by (simp add: restore_def prog_defs load_state_dict_def Let_def)

theorem restore_size_mismatch_witness:
  "fst (restore None True ex_restore_trainer) = Return None \<and>
   env_name (snd (restore None True ex_restore_trainer)) = ''run'' \<and>
   named_parameters (model (snd (restore None True ex_restore_trainer)))
     = map (load_param (model_state ex_checkpoint)) (named_parameters ex_model)"
proof -
  have a: "path_exists (fs ex_restore_trainer)
             (case None of None \<Rightarrow> checkpoint_path ex_restore_trainer | Some q \<Rightarrow> q)"
    by (simp add: ex_restore_trainer_def ex_trainer_def checkpoint_path_def path_exists_def)
  have b: "torch_load (fs ex_restore_trainer)
             (case None of None \<Rightarrow> checkpoint_path ex_restore_trainer | Some q \<Rightarrow> q)
             = Return ex_checkpoint"
    by (simp add: ex_restore_trainer_def ex_trainer_def checkpoint_path_def torch_load_def)
  have c: "size_mismatches (model ex_restore_trainer) (model_state ex_checkpoint) \<noteq> []"
    by (simp add: ex_restore_trainer_def ex_trainer_def ex_checkpoint_def ex_model_def ex_param_def
          size_mismatches_def)
  from restore_size_mismatch [OF a b c]
  show ?thesis by (simp add: ex_restore_trainer_def ex_trainer_def)
qed

text \<open>
  The model is not left as it was: the checkpoint's weight has the model's shape and has
  replaced it, while the bias, whose shape differs, made the restore abort.
\<close>

theorem restore_size_mismatch_counterexample:
  "path_exists (fs ex_restore_trainer) (checkpoint_path ex_restore_trainer) \<and>
   torch_load (fs ex_restore_trainer) (checkpoint_path ex_restore_trainer) = Return ex_checkpoint \<and>
   size_mismatches (model ex_restore_trainer) (model_state ex_checkpoint) = [''fc.bias''] \<and>
   fst (restore None True ex_restore_trainer) = Return None \<and>
   named_parameters (model ex_restore_trainer)
     = [(''fc.weight'', ex_param [Finite 1, Finite 2]), (''fc.bias'', ex_param [Finite 0])] \<and>
   named_parameters (model (snd (restore None True ex_restore_trainer)))
     = [(''fc.weight'', ex_param [Finite 5, Finite 6]), (''fc.bias'', ex_param [Finite 0])]"
  by (simp add: restore_def prog_defs load_state_dict_def Let_def ex_restore_trainer_def
        ex_trainer_def ex_checkpoint_def ex_model_def ex_param_def checkpoint_path_def
        path_exists_def is_dir_def torch_load_def size_mismatches_def load_param_def
        unexpected_keys_def missing_keys_def)


subsection \<open>The scan for NaN parameters\<close>

lemma warn_loop:
  "for_loop ps (\<lambda>(name, param) _. if isnan_any param then warn (nan_message name) else ret ()) () s
     = (Return (), s\<lparr>warnings := warnings s
           @ map (\<lambda>np. nan_message (fst np)) (filter (\<lambda>np. isnan_any (snd np)) ps)\<rparr>)"
  by (induction ps arbitrary: s) (auto simp: prog_defs)

lemma warn_nan_parameters_eq:
  "warn_nan_parameters s = (Return (), s\<lparr>warnings := warnings s @ nan_warnings (model s)\<rparr>)"
  by (simp add: warn_nan_parameters_def nan_warnings_def warn_loop)

lemma train_epoch_batch_eq:
  "train_epoch_batch env b acc s =
     (case train_batch env (model s) (if cuda_is_available env then cuda (fst b) else fst b)
             (if cuda_is_available env then cuda (snd b) else snd b) of
        (Return r, m') \<Rightarrow>
          (Return (Some (fst r), mean_update env (snd acc) (snd r)),
           s\<lparr>model := m', warnings := warnings s @ nan_warnings m',
             calls := calls s @ [BatchFinished], timer := timer_tick (timer s)\<rparr>)
      | (Raise e, m') \<Rightarrow> (Raise e, s\<lparr>model := m'\<rparr>))"
  by (simp add: train_epoch_batch_def Let_def seq_def on_model_def warn_nan_parameters_eq
        monitor_batch_finished_def log_call_def modify_def ret_def
        split: prod.splits outcome.splits)

lemma train_epoch_loop:
  assumes "train_batches_return env (model s) bs"
  shows "\<exists>r s'. for_loop bs (train_epoch_batch env) acc s = (Return r, s') \<and>
           warnings s' = warnings s @ concat (map nan_warnings (models_after_batches env (model s) bs)) \<and>
           (bs \<noteq> [] \<or> mean (snd acc) \<noteq> None \<longrightarrow> mean (snd r) \<noteq> None)"
  using assms
proof (induction bs arbitrary: acc s)
  case Nil
  then show ?case by (simp add: ret_def)
next
  case (Cons b bs)
  obtain r m' where
    tb: "train_batch env (model s) (if cuda_is_available env then cuda (fst b) else fst b)
           (if cuda_is_available env then cuda (snd b) else snd b) = (Return r, m')"
    using Cons.prems by (auto split: prod.splits outcome.splits)
  let ?s1 = "s\<lparr>model := m', warnings := warnings s @ nan_warnings m',
               calls := calls s @ [BatchFinished], timer := timer_tick (timer s)\<rparr>"
  let ?acc1 = "(Some (fst r), mean_update env (snd acc) (snd r))"
  have step: "train_epoch_batch env b acc s = (Return ?acc1, ?s1)"
    by (simp add: train_epoch_batch_eq tb)
  have "train_batches_return env (model ?s1) bs"
    using Cons.prems tb by simp
  from Cons.IH [OF this, of ?acc1] obtain r' s' where
    rest: "for_loop bs (train_epoch_batch env) ?acc1 ?s1 = (Return r', s')"
      "warnings s' = warnings ?s1 @ concat (map nan_warnings (models_after_batches env (model ?s1) bs))"
      "mean (snd r') \<noteq> None"
    by (auto simp: mean_update_def)
  show ?case
    using step rest tb by (simp add: seq_def)
qed

text \<open>
  C4. In an epoch whose batches \<^verbatim>\<open>train_batch\<close> handles without raising, the scan after
  each batch warns of every named parameter that then holds a NaN, naming it, and of no
  other parameter; the warnings are not fatal, \<^verbatim>\<open>train_epoch\<close> returns.
\<close>

theorem train_epoch_nan_warnings:
  assumes "train_loader s \<noteq> []"
    and "train_batches_return env (model s) (train_loader s)"
  shows "fst (train_epoch env e s) = Return () \<and>
         warnings (snd (train_epoch env e s))
           = warnings s
               @ concat (map nan_warnings (models_after_batches env (model s) (train_loader s))) \<and>
         (\<forall>m \<in> set (models_after_batches env (model s) (train_loader s)).
            \<forall>np \<in> set (named_parameters m).
              isnan_any (snd np) \<longrightarrow> nan_message (fst np) \<in> set (warnings (snd (train_epoch env e s))))"
proof -
  let ?s0 = "s\<lparr>calls := calls s @ [Tqdm e]\<rparr>"
  have "train_batches_return env (model ?s0) (train_loader ?s0)" using assms by simp
  from train_epoch_loop [OF this, of "(None, \<lparr>count = 0, mean = None\<rparr>)"]
  obtain r s1 where
    loop: "for_loop (train_loader s) (train_epoch_batch env) (None, \<lparr>count = 0, mean = None\<rparr>) ?s0
             = (Return r, s1)"
      "warnings s1 = warnings s
         @ concat (map nan_warnings (models_after_batches env (model s) (train_loader s)))"
      "mean (snd r) \<noteq> None"
    using assms(1) by auto
  then obtain m where m: "mean (snd r) = Some m" by auto
  have main: "fst (train_epoch env e s) = Return () \<and>
         warnings (snd (train_epoch env e s))
           = warnings s
               @ concat (map nan_warnings (models_after_batches env (model s) (train_loader s)))"
    using loop m
    by (cases r) (simp add: train_epoch_def prog_defs get_mean_def)
  then show ?thesis
    by (auto simp: nan_warnings_def)
qed

theorem train_epoch_nan_warnings_witness:
  "fst (train_epoch ex_env 0 ex_nan_trainer) = Return () \<and>
   warnings (snd (train_epoch ex_env 0 ex_nan_trainer)) = [nan_message ''fc.weight'']"
proof -
  have a: "train_loader ex_nan_trainer \<noteq> []"
    by (simp add: ex_nan_trainer_def ex_trainer_def)
  have b: "train_batches_return ex_env (model ex_nan_trainer) (train_loader ex_nan_trainer)"
    by (simp add: ex_nan_trainer_def ex_trainer_def ex_env_def)
  from train_epoch_nan_warnings [OF a b, of 0]
  show ?thesis
    by (simp add: ex_nan_trainer_def ex_trainer_def ex_env_def ex_model_def ex_param_def
          nan_warnings_def isnan_any_def)
qed

text \<open>
  A parameter that holds an infinity and no NaN is not finite, and the scan issues no
  warning for it.
\<close>

theorem train_epoch_nan_warnings_counterexample:
  "fst (train_epoch ex_env 0 ex_inf_trainer) = Return () \<and>
   named_parameters (model (snd (train_epoch ex_env 0 ex_inf_trainer)))
     = [(''fc.weight'', ex_param [PosInf, Finite 2])] \<and>
   has_non_finite (ex_param [PosInf, Finite 2]) \<and>
   warnings (snd (train_epoch ex_env 0 ex_inf_trainer)) = []"
  by (simp add: train_epoch_def prog_defs get_mean_def train_epoch_batch_eq ex_env_def
        ex_inf_trainer_def ex_trainer_def ex_model_def ex_param_def nan_warnings_def isnan_any_def
        has_non_finite_def mean_update_def new_accuracy_def)


subsection \<open>The mask-training hook and the attack generator\<close>

text \<open>
  C2. Whenever the mask-training hook or the attack generator returns, the model is in
  the mode it was in before the call, whatever the collaborators did to the model in
  between.
\<close>

theorem mode_restored_on_return:
  "(train_mask env s = (Return r, s') \<longrightarrow> training (model s') = training (model s)) \<and>
   (get_adversarial_examples env noise_ampl n_iter s = (Return ex, s')
      \<longrightarrow> training (model s') = training (model s))"
proof (intro conjI impI)
  assume "train_mask env s = (Return r, s')"
  then show "training (model s') = training (model s)"
    by (auto simp: train_mask_def prog_defs heap_defs Let_def split: prod.splits outcome.splits list.splits if_splits)
next
  assume "get_adversarial_examples env noise_ampl n_iter s = (Return ex, s')"
  then show "training (model s') = training (model s)"
    by (auto simp: get_adversarial_examples_def prog_defs heap_defs Let_def split: prod.splits outcome.splits list.splits if_splits)
qed

theorem mode_restored_on_return_witness:
  "training (model ex_trainer) \<and>
   (\<exists>r s'. train_mask ex_env ex_trainer = (Return r, s') \<and> training (model s')) \<and>
   (\<exists>ex s'. get_adversarial_examples ex_env (Finite 100) 2 ex_trainer = (Return ex, s') \<and>
      training (model s'))"
proof -
  have t: "training (model ex_trainer)"
    by (simp add: ex_trainer_def ex_model_def)
  have "\<exists>r. fst (train_mask ex_env ex_trainer) = Return r"
    by (simp add: eval_defs)
  then obtain r s1 where m: "train_mask ex_env ex_trainer = (Return r, s1)"
    by (cases "train_mask ex_env ex_trainer") auto
  have "\<exists>ex. fst (get_adversarial_examples ex_env (Finite 100) 2 ex_trainer) = Return ex"
    by (simp add: eval_defs)
  then obtain ex s2 where
    g: "get_adversarial_examples ex_env (Finite 100) 2 ex_trainer = (Return ex, s2)"
    by (cases "get_adversarial_examples ex_env (Finite 100) 2 ex_trainer") auto
  from mode_restored_on_return [of ex_env ex_trainer r s1] m t
  have "training (model s1)" by simp
  moreover
  from mode_restored_on_return [of ex_env ex_trainer _ s2 "Finite 100" 2 ex] g t
  have "training (model s2)" by simp
  ultimately show ?thesis using t m g by blast
qed

text \<open>
  When the forward pass raises, neither the hook nor the generator reaches its restore:
  the model was in training mode before the call and is in evaluation mode after it.
\<close>

theorem mode_restored_on_return_counterexample:
  "training (model ex_trainer) \<and>
   fst (train_mask ex_failing_env ex_trainer) = Raise (RuntimeError ''forward'') \<and>
   \<not> training (model (snd (train_mask ex_failing_env ex_trainer))) \<and>
   fst (get_adversarial_examples ex_failing_env (Finite 100) 1 ex_trainer)
     = Raise (RuntimeError ''forward'') \<and>
   \<not> training (model (snd (get_adversarial_examples ex_failing_env (Finite 100) 1 ex_trainer)))"
  by (simp add: eval_defs)

lemma adversarial_step_frame:
  assumes "heap_frame a io t shp s"
    and "adversarial_step env noise_ampl a labels1 s = (Return r, s')"
  shows "heap_frame a io t shp s'"
  using assms
  by (auto simp: heap_frame_def adversarial_step_def inplace_add_def prog_defs heap_defs
           split: prod.splits outcome.splits option.splits if_splits)

lemma gae_steps:
  assumes nb: "next_batch s = (Return (images0, labels0), s1)"
    and al: "alloc images0 s1 = (Return a0, s2)"
    and cu: "(if c then tensor_cuda a0 else ret a0) s2 = (Return a, s3)"
    and cl: "clone a s3 = (Return io, s4)"
    and rg: "requires_grad_set a True s4 = (Return u5, s5)"
    and ee: "enter_eval s5 = (Return ms, s6)"
    and lp: "for_loop xs (\<lambda>i _. adversarial_step env noise_ampl a labels1) () s6 = (Return u7, s7)"
    and rg2: "requires_grad_set a False s7 = (Return u8, s8)"
    and le: "leave_eval ms s8 = (Return u9, s9)"
  shows "(\<exists>rest. train_loader s = (images0, labels0) # rest) \<and>
         a \<noteq> io \<and> a < length (heap s9) \<and> io < length (heap s9) \<and>
         shape (heap s9 ! a) = shape (heap s9 ! io) \<and>
         shape (heap s9 ! io) = shape images0 \<and>
         elems (heap s9 ! io) = elems images0 \<and>
         (xs = [] \<longrightarrow> elems (heap s9 ! a) = elems (heap s9 ! io))"
proof -
  from nb have ld: "\<exists>rest. train_loader s = (images0, labels0) # rest"
    by (auto simp: next_batch_def split: list.splits)
  from al cu have a3: "a < length (heap s3)" "shape (heap s3 ! a) = shape images0"
      "elems (heap s3 ! a) = elems images0"
    by (auto simp: heap_defs prog_defs cuda_def nth_append split: if_splits)
  from cl a3 have s4: "io = length (heap s3)" "heap s4 = heap s3 @ [heap s3 ! a]"
    by (auto simp: heap_defs prog_defs)
  from rg s4 a3 ee have fr6: "heap_frame a io (heap s3 ! a) (shape images0) s6"
    and e6: "elems (heap s6 ! a) = elems images0"
    by (auto simp: heap_frame_def heap_defs prog_defs nth_append split: if_splits)
  from for_loop_invariant [OF lp, where I = "heap_frame a io (heap s3 ! a) (shape images0)"] fr6
  have fr7: "heap_frame a io (heap s3 ! a) (shape images0) s7"
    by (blast intro: adversarial_step_frame)
  from lp e6 have e7: "xs = [] \<longrightarrow> elems (heap s7 ! a) = elems images0"
    by (auto simp: ret_def)
  from fr7 e7 rg2 le a3 show ?thesis
    using ld
    by (auto simp: heap_frame_def heap_defs prog_defs split: if_splits)
qed

text \<open>
  C1. When the attack generator returns, the batch it drew is the first of the loader;
  the clone and the working batch are two objects; the perturbed batch has the shape of
  the original; the original holds the values and the shape of the batch drawn; the
  labels are the labels drawn; and without iterations the perturbed batch holds the
  values of the original. This holds for every noise amplitude.
\<close>

theorem get_adversarial_examples_frame:
  assumes "get_adversarial_examples env noise_ampl n_iter s = (Return ex, s')"
  shows "\<exists>images0 labels0 rest.
           train_loader s = (images0, labels0) # rest \<and>
           original ex \<noteq> adversarial ex \<and>
           original ex < length (heap s') \<and> adversarial ex < length (heap s') \<and>
           shape (heap s' ! adversarial ex) = shape (heap s' ! original ex) \<and>
           shape (heap s' ! original ex) = shape images0 \<and>
           elems (heap s' ! original ex) = elems images0 \<and>
           shape (adv_labels ex) = shape labels0 \<and>
           elems (adv_labels ex) = elems labels0 \<and>
           (n_iter \<le> 0 \<longrightarrow> elems (heap s' ! adversarial ex) = elems (heap s' ! original ex))"
proof -
  have empty: "n_iter \<le> 0 \<Longrightarrow> py_range 0 n_iter = []"
    by (simp add: py_range_def)
  from assms show ?thesis
    unfolding get_adversarial_examples_def Let_def
    apply (elim seq_ReturnE)
    apply (clarsimp split: prod.splits)
    apply (elim seq_ReturnE)
    apply (clarsimp simp: ret_def)
    apply (drule (8) gae_steps)
    apply (auto simp: cuda_def empty)
    done
qed

theorem get_adversarial_examples_frame_witness:
  "(\<exists>ex s'. get_adversarial_examples ex_env (Finite 100) 0 ex_trainer = (Return ex, s') \<and>
      elems (heap s' ! original ex) = elems ex_images \<and>
      elems (heap s' ! adversarial ex) = elems ex_images \<and>
      elems (adv_labels ex) = elems ex_labels) \<and>
   (\<exists>ex s'. get_adversarial_examples ex_env (Finite 100) 2 ex_trainer = (Return ex, s') \<and>
      elems (heap s' ! original ex) = elems ex_images \<and>
      shape (heap s' ! adversarial ex) = shape ex_images)"
proof -
  have "\<exists>ex. fst (get_adversarial_examples ex_env (Finite 100) 0 ex_trainer) = Return ex"
    by (simp add: eval_defs)
  then obtain ex0 s0 where
    g0: "get_adversarial_examples ex_env (Finite 100) 0 ex_trainer = (Return ex0, s0)"
    by (cases "get_adversarial_examples ex_env (Finite 100) 0 ex_trainer") auto
  have "\<exists>ex. fst (get_adversarial_examples ex_env (Finite 100) 2 ex_trainer) = Return ex"
    by (simp add: eval_defs)
  then obtain ex2 s2 where
    g2: "get_adversarial_examples ex_env (Finite 100) 2 ex_trainer = (Return ex2, s2)"
    by (cases "get_adversarial_examples ex_env (Finite 100) 2 ex_trainer") auto
  from get_adversarial_examples_frame [OF g0]
  have "elems (heap s0 ! original ex0) = elems ex_images \<and>
        elems (heap s0 ! adversarial ex0) = elems ex_images \<and>
        elems (adv_labels ex0) = elems ex_labels"
    by (auto simp: ex_trainer_def)
  moreover
  from get_adversarial_examples_frame [OF g2]
  have "elems (heap s2 ! original ex2) = elems ex_images \<and>
        shape (heap s2 ! adversarial ex2) = shape ex_images"
    by (auto simp: ex_trainer_def)
  ultimately show ?thesis using g0 g2 by blast
qed


subsection \<open>Cadence and epoch counter of a run\<close>

lemma effect_ret: "effect ld (ret x) [] 0"
  by (simp add: effect_def ret_def)

lemma effect_raise: "effect ld (raise e) tr d"
  by (simp add: effect_def raise_def)

lemma effect_pure_call: "effect ld (\<lambda>s. pure_call (h s) s) [] 0"
  by (auto simp: effect_def pure_call_def)

lemma effect_pure_call0: "effect ld (pure_call r) [] 0"
  by (auto simp: effect_def pure_call_def)

lemma effect_on_model: "effect ld (\<lambda>s. on_model (h s) s) [] 0"
  by (auto simp: effect_def on_model_def split: prod.splits)

lemma effect_on_model0: "effect ld (on_model h) [] 0"
  by (auto simp: effect_def on_model_def split: prod.splits)

lemma effect_print: "effect ld (\<lambda>s. print (h s) s) [] 0"
  by (auto simp: effect_def print_def modify_def)

lemma effect_log_call: "effect ld (log_call c) (cadence_of c) 0"
  by (auto simp: effect_def log_call_def modify_def)

lemma effect_seq:
  assumes "effect ld f t1 d1" and "\<And>x. effect ld (g x) t2 d2"
    and "t1 @ t2 = tr" and "d1 + d2 = d"
  shows "effect ld (seq f g) tr d"
  unfolding effect_def
proof (intro allI impI, elim conjE)
  fix s r s'
  assume ld: "train_loader s = ld" and run: "seq f g s = (Return r, s')"
  from run obtain x s1 where f: "f s = (Return x, s1)" and g: "g x s1 = (Return r, s')"
    by (rule seq_ReturnE)
  from assms(1) ld f have 1: "train_loader s1 = ld"
      "batches_in_epoch (timer s1) = batches_in_epoch (timer s)"
      "batch_id (timer s1) = batch_id (timer s) + d1"
      "\<exists>cs. calls s1 = calls s @ cs \<and> cadence_trace cs = t1"
    unfolding effect_def by blast+
  from assms(2) [of x] 1(1) g have 2: "train_loader s' = ld"
      "batches_in_epoch (timer s') = batches_in_epoch (timer s1)"
      "batch_id (timer s') = batch_id (timer s1) + d2"
      "\<exists>cs. calls s' = calls s1 @ cs \<and> cadence_trace cs = t2"
    unfolding effect_def by blast+
  from 1(4) 2(4) assms(3) have "\<exists>cs. calls s' = calls s @ cs \<and> cadence_trace cs = tr"
    by auto
  with 1 2 assms(4)
  show "train_loader s' = ld \<and> batches_in_epoch (timer s') = batches_in_epoch (timer s) \<and>
        batch_id (timer s') = batch_id (timer s) + d \<and>
        (\<exists>cs. calls s' = calls s @ cs \<and> cadence_trace cs = tr)"
    by simp
qed

lemma effect_case_prod:
  assumes "\<And>a b. effect ld (f a b) tr d"
  shows "effect ld (case_prod f x) tr d"
  using assms by (cases x) simp

lemma effect_state:
  assumes "\<And>s0. train_loader s0 = ld \<Longrightarrow> effect ld (f s0) tr d"
  shows "effect ld (\<lambda>s. f s s) tr d"
  using assms unfolding effect_def by blast

lemma effect_for_loop:
  assumes "\<And>x acc. effect ld (body x acc) (t x) d"
  shows "effect ld (for_loop xs body acc) (concat (map t xs)) (length xs * d)"
proof (induction xs arbitrary: acc)
  case Nil
  show ?case by (simp add: effect_ret)
next
  case (Cons x xs)
  show ?case
    by (simp, rule effect_seq [OF assms Cons.IH]) simp_all
qed

lemma effect_heap_ops:
  "effect ld next_batch [] 0"
  "effect ld (alloc t) [] 0"
  "effect ld (deref a) [] 0"
  "effect ld (update_tensor a f) [] 0"
  "effect ld (tensor_cuda a) [] 0"
  "effect ld (clone a) [] 0"
  "effect ld (requires_grad_set a b) [] 0"
  "effect ld enter_eval [] 0"
  "effect ld (leave_eval saved) [] 0"
  by (auto simp: effect_def next_batch_def heap_defs prog_defs
           split: list.splits prod.splits outcome.splits if_splits)

lemma effect_adversarial_step: "effect ld (adversarial_step env noise_ampl a labels1) [] 0"
  by (auto simp: effect_def adversarial_step_def inplace_add_def heap_defs prog_defs
           split: list.splits prod.splits outcome.splits if_splits option.splits)

lemma effect_train_mask: "effect ld (train_mask env) [] 0"
  by (auto simp: effect_def train_mask_def heap_defs prog_defs Let_def
           split: list.splits prod.splits outcome.splits if_splits)

lemma save_calls:
  assumes "save s = (Return r, s')"
  shows "train_loader s' = train_loader s \<and> timer s' = timer s \<and>
         calls s' = calls s @ [TorchSave (checkpoint_path s) (state_dict s)
                                 (snd (mkdir_parents (fs s) (parent (checkpoint_path s))))] \<and>
         fst (mkdir_parents (fs s) (parent (checkpoint_path s))) = Return () \<and>
         fs s' = snd (torch_save (snd (mkdir_parents (fs s) (parent (checkpoint_path s))))
                   (state_dict s) (checkpoint_path s)) \<and>
         (case fst (torch_save (snd (mkdir_parents (fs s) (parent (checkpoint_path s))))
                   (state_dict s) (checkpoint_path s)) of
            Return u \<Rightarrow> True
          | Raise (PermissionError msg) \<Rightarrow> True
          | Raise e \<Rightarrow> False) \<and>
         accuracy_measure s' = accuracy_measure s \<and> env_name s' = env_name s \<and>
         checkpoint_dir s' = checkpoint_dir s"
proof -
  obtain r1 f1 where m: "mkdir_parents (fs s) (parent (checkpoint_path s)) = (r1, f1)"
    by (cases "mkdir_parents (fs s) (parent (checkpoint_path s))")
  let ?s1 = "s\<lparr>fs := f1\<rparr>"
  let ?s2 = "?s1\<lparr>calls := calls s @ [TorchSave (checkpoint_path s) (state_dict s) f1]\<rparr>"
  obtain r2 f2 where t: "torch_save f1 (state_dict ?s2) (checkpoint_path ?s2) = (r2, f2)"
    by (cases "torch_save f1 (state_dict ?s2) (checkpoint_path ?s2)")
  show ?thesis
  proof (cases r1)
    case (Raise e)
    with assms m show ?thesis by (simp add: save_def prog_defs)
  next
    case Return
    show ?thesis
    proof (cases r2)
      case (Return u)
      with assms m t \<open>r1 = Return _\<close> show ?thesis
        by (auto simp: save_def prog_defs checkpoint_path_def state_dict_def)
    next
      case (Raise e)
      with assms m t \<open>r1 = Return _\<close> show ?thesis
        by (cases e) (auto simp: save_def prog_defs checkpoint_path_def state_dict_def)
    qed
  qed
qed

lemma effect_save: "effect ld save [CheckpointWrite] 0"
  unfolding effect_def by (auto dest!: save_calls)

lemma effect_cuda_or_not: "effect ld (if c then tensor_cuda a else ret a) [] 0"
  by (simp add: effect_heap_ops effect_ret)

lemma effect_adversarial_loop:
  "effect ld (for_loop xs (\<lambda>i _. adversarial_step env noise_ampl a labels1) ()) [] 0"
proof -
  have "concat (map (\<lambda>_. []) xs) = ([] :: cadence list)" by (induction xs) simp_all
  with effect_for_loop [of ld "\<lambda>i _. adversarial_step env noise_ampl a labels1" "\<lambda>_. []" 0 xs "()"]
  show ?thesis by (simp add: effect_adversarial_step)
qed

lemma effect_log_calls:
  "effect ld (log_call (Tqdm e)) [Epoch e] 0"
  "effect ld (\<lambda>s. log_call (FullForwardPass d (model s)) s) [Evaluation] 0"
  "effect ld (\<lambda>s. log_call (AccuracySave (accuracy_measure s) outputs labels1) s) [Calibration] 0"
  "effect ld (log_call (EpochFinished outputs labels1)) [EpochFinishedEvent] 0"
  "effect ld (log_call (PlotAdversarial ex)) [] 0"
  "effect ld (log_call (UpdateLoss loss cadence_name)) [] 0"
  "effect ld (log_call MonitorLogModel) [] 0"
  "effect ld (log_call MonitorLogSelf) [] 0"
  "effect ld (log_call (MutualInfoPrepare k)) [] 0"
  by (auto simp: effect_def log_call_def modify_def)

lemmas effect_leaves = effect_ret effect_raise effect_pure_call effect_pure_call0 effect_on_model
  effect_on_model0 effect_print effect_log_calls effect_heap_ops effect_adversarial_step
  effect_train_mask effect_save effect_cuda_or_not effect_adversarial_loop

lemma effect_get_adversarial_examples: "effect ld (get_adversarial_examples env noise_ampl n_iter) [] 0"
  unfolding get_adversarial_examples_def Let_def
  by (rule effect_seq effect_case_prod effect_leaves refl)+ simp_all

lemma effect_modify:
  assumes "\<And>s. train_loader (f s) = train_loader s \<and> timer (f s) = timer s \<and> calls (f s) = calls s"
  shows "effect ld (modify f) [] 0"
  using assms by (simp add: effect_def modify_def)

lemma effect_monitor_batch_finished: "effect ld monitor_batch_finished [] 1"
  by (auto simp: effect_def monitor_batch_finished_def prog_defs timer_tick_def)

lemma effect_warn_nan_parameters: "effect ld warn_nan_parameters [] 0"
  by (simp add: effect_def warn_nan_parameters_eq)

lemma effect_train_epoch_batch: "effect ld (train_epoch_batch env b acc) [] 1"
  unfolding train_epoch_batch_def Let_def
  by (rule effect_seq effect_case_prod effect_leaves effect_warn_nan_parameters
        effect_monitor_batch_finished refl)+ simp_all

lemma effect_train_epoch_loop:
  "effect ld (for_loop ld (train_epoch_batch env) acc) [] (length ld)"
proof -
  have "concat (map (\<lambda>_. []) ld) = ([] :: cadence list)" by (induction ld) simp_all
  with effect_for_loop [of ld "train_epoch_batch env" "\<lambda>_. []" 1 ld acc, OF effect_train_epoch_batch]
  show ?thesis by simp
qed

lemma effect_train_epoch_loop_state:
  "effect ld (\<lambda>s. for_loop (train_loader s) (train_epoch_batch env) acc s) [] (length ld)"
  by (rule effect_state) (simp add: effect_train_epoch_loop)

lemma effect_sparsity:
  "effect ld (\<lambda>s. if accuracy_class (accuracy_measure s) \<noteq> AccuracyArgmax
          then seq (log_call (UpdateSparsity outputs ''batch''))
                 (\<lambda>_. log_call (UpdateDensity outputs ''batch'')) s
          else ret () s) [] 0"
  by (auto simp: effect_def prog_defs)

lemma effect_train_epoch: "effect ld (train_epoch env e) [Epoch e] (length ld)"
  unfolding train_epoch_def
  by (rule effect_seq effect_case_prod effect_leaves effect_train_epoch_loop_state
        effect_sparsity refl)+ simp_all

lemma effect_epoch_finished: "effect ld (epoch_finished env e outputs labels1) [CheckpointWrite] 0"
  unfolding epoch_finished_def
  by (rule effect_seq effect_case_prod effect_leaves refl)+ simp_all

lemma effect_adversarial_block:
  "effect ld (if adversarial_flag
          then seq (get_adversarial_examples env noise_ampl n_iter) (\<lambda>ex. log_call (PlotAdversarial ex))
          else ret ()) [] 0"
proof (cases adversarial_flag)
  case True
  have "effect ld (seq (get_adversarial_examples env noise_ampl n_iter)
          (\<lambda>ex. log_call (PlotAdversarial ex))) [] 0"
    by (rule effect_seq effect_get_adversarial_examples effect_log_calls)+ simp_all
  with True show ?thesis by simp
next
  case False
  then show ?thesis by (simp add: effect_ret)
qed

lemma effect_mask_block:
  "effect ld (if mask_explain then seq (train_mask env) (\<lambda>_. ret ()) else ret ()) [] 0"
proof (cases mask_explain)
  case True
  have "effect ld (seq (train_mask env) (\<lambda>_. ret ())) [] 0"
    by (rule effect_seq effect_train_mask effect_ret)+ simp_all
  with True show ?thesis by simp
next
  case False
  then show ?thesis by (simp add: effect_ret)
qed

lemma effect_accuracy_update: "effect ld (modify (\<lambda>s. s\<lparr>accuracy_measure := acc\<rparr>)) [] 0"
  by (rule effect_modify) simp

lemma effect_evaluate_epoch:
  "effect ld (evaluate_epoch env decorated adversarial_flag mask_explain e)
     [Evaluation, Calibration, EpochFinishedEvent, CheckpointWrite] 0"
  unfolding evaluate_epoch_def
  by (rule effect_seq effect_case_prod effect_leaves effect_accuracy_update effect_adversarial_block
        effect_mask_block effect_epoch_finished refl)+ simp_all

lemma effect_py_mod_branch:
  "effect ld (seq (py_mod e m) (\<lambda>r. if r = 0 then evaluate_epoch env decorated adversarial_flag mask_explain e
                                    else ret ()))
     (if e mod m = 0 then [Evaluation, Calibration, EpochFinishedEvent, CheckpointWrite] else []) 0"
proof (cases "m = 0")
  case True
  then show ?thesis by (simp add: effect_def py_mod_def seq_def raise_def)
next
  case False
  then have "seq (py_mod e m) (\<lambda>r. if r = 0 then evaluate_epoch env decorated adversarial_flag mask_explain e
                                    else ret ())
             = (if e mod m = 0 then evaluate_epoch env decorated adversarial_flag mask_explain e else ret ())"
    by (auto simp: py_mod_def seq_def ret_def)
  then show ?thesis by (simp add: effect_evaluate_epoch effect_ret)
qed

lemma effect_train_loop_body:
  "effect ld (train_loop_body env m decorated adversarial_flag mask_explain e u)
     (epoch_cadence m e) (length ld)"
  unfolding train_loop_body_def epoch_cadence_def
  by (rule effect_seq [OF effect_train_epoch effect_py_mod_branch]) simp_all

lemma effect_train_loop:
  "effect ld (for_loop es (train_loop_body env m decorated adversarial_flag mask_explain) u)
     (concat (map (epoch_cadence m) es)) (length es * length ld)"
  by (rule effect_for_loop) (rule effect_train_loop_body)

lemma effect_monitor_block:
  "effect ld (\<lambda>s. if \<not> monitor_is_active s
              then seq (monitor_open (env_name s)) (\<lambda>_. log_call MonitorClear) s
              else ret () s) [] 0"
  by (auto simp: effect_def monitor_open_def prog_defs)

lemma effect_log_trainer: "effect ld log_trainer [] 0"
  by (auto simp: effect_def log_trainer_def prog_defs)

lemma effect_mutual_info:
  "effect ld (if 0 < k then log_call (MutualInfoPrepare k) else ret ()) [] 0"
  by (simp add: effect_log_calls effect_ret)

lemma length_py_range: "length (py_range a (a + n)) = nat n"
  by (simp add: py_range_def)

lemma effect_from_seq:
  assumes "effect ld f t1 0" and "\<And>x. effect_from ld tm (g x) t2 d" and "t1 @ t2 = tr"
  shows "effect_from ld tm (seq f g) tr d"
  unfolding effect_from_def
proof (intro allI impI, elim conjE)
  fix s r s'
  assume ld: "train_loader s = ld" and tm: "timer s = tm" and run: "seq f g s = (Return r, s')"
  from run obtain x s1 where f: "f s = (Return x, s1)" and g: "g x s1 = (Return r, s')"
    by (rule seq_ReturnE)
  from assms(1) ld f have 1: "train_loader s1 = ld"
      "batches_in_epoch (timer s1) = batches_in_epoch (timer s)"
      "batch_id (timer s1) = batch_id (timer s) + 0"
      "\<exists>cs. calls s1 = calls s @ cs \<and> cadence_trace cs = t1"
    unfolding effect_def by blast+
  from 1(2,3) tm have tm1: "timer s1 = tm" by simp
  from assms(2) [of x] 1(1) tm1 g have 2: "train_loader s' = ld"
      "batches_in_epoch (timer s') = batches_in_epoch tm"
      "batch_id (timer s') = batch_id tm + d"
      "\<exists>cs. calls s' = calls s1 @ cs \<and> cadence_trace cs = t2"
    unfolding effect_from_def by blast+
  from 1(4) 2(4) assms(3) have "\<exists>cs. calls s' = calls s @ cs \<and> cadence_trace cs = tr"
    by auto
  with 2
  show "train_loader s' = ld \<and> batches_in_epoch (timer s') = batches_in_epoch tm \<and>
        batch_id (timer s') = batch_id tm + d \<and>
        (\<exists>cs. calls s' = calls s @ cs \<and> cadence_trace cs = tr)"
    by simp
qed

lemma effect_from_train_loop:
  "effect_from ld tm
     (\<lambda>s. for_loop (py_range (int (timer_epoch (timer s))) (int (timer_epoch (timer s)) + n))
             (train_loop_body env m decorated adversarial_flag mask_explain) () s)
     (concat (map (epoch_cadence m) (py_range (int (timer_epoch tm)) (int (timer_epoch tm) + n))))
     (nat n * length ld)"
  using effect_train_loop [of ld "py_range (int (timer_epoch tm)) (int (timer_epoch tm) + n)"
          env m decorated adversarial_flag mask_explain "()"]
  unfolding effect_def effect_from_def length_py_range by blast

lemma effect_from_train:
  "effect_from ld tm (train env n m mutual_info_layers adversarial_flag mask_explain)
     (concat (map (epoch_cadence m) (py_range (int (timer_epoch tm)) (int (timer_epoch tm) + n))))
     (nat n * length ld)"
  unfolding train_def
  by (rule effect_from_seq effect_leaves effect_monitor_block effect_log_trainer effect_mutual_info
        effect_from_train_loop refl)+ simp_all



lemma is_cadence_call_simps [simp]:
  "is_cadence_call (Tqdm e)"
  "is_cadence_call (FullForwardPass d m)"
  "is_cadence_call (AccuracySave a outputs labels1)"
  "is_cadence_call (EpochFinished outputs labels1)"
  "is_cadence_call (TorchSave p obj f)"
  "\<not> is_cadence_call (UpdateLoss loss cadence_name)"
  "\<not> is_cadence_call (MonitorOpen name)"
  "\<not> is_cadence_call MonitorClear"
  "\<not> is_cadence_call (MonitorLog msg)"
  "\<not> is_cadence_call MonitorLogModel"
  "\<not> is_cadence_call MonitorLogSelf"
  "\<not> is_cadence_call (MutualInfoPrepare k)"
  by (simp_all add: is_cadence_call_def)



























text \<open>
  In the example run the strategy was calibrated with the outputs of the full forward
  pass and the checkpoint file exists.
\<close>

lemma example_run_effects:
  "calibration (accuracy_measure (snd (train ex_env 3 2 0 False False ex_trainer)))
     = [Finite 1, Finite 2, Finite 3, Finite 4] \<and>
   files (fs (snd (train ex_env 3 2 0 False False ex_trainer))) [''checkpoints'', ''run.pt'']
     \<noteq> None"
  by (simp add: eval_defs)

lemma trainer_init_timer_consistent:
  assumes "trainer_init env w cls m crit dataset accuracy_opt env_suffix ckpt_dir = Return t"
  shows "timer_consistent t"
  using assms
  by (auto simp: trainer_init_def Let_def timer_consistent_def timer_init_def
           split: list.splits outcome.splits)

lemma restore_timer_consistent:
  assumes "timer_consistent s"
  shows "timer_consistent (snd (restore arg strict s))"
  using assms
  by (auto simp: restore_def prog_defs monitor_open_def timer_consistent_def set_epoch_def Let_def
           split: prod.splits outcome.splits error.splits option.splits if_splits)

text \<open>
  C8. A run of \<open>k \<ge> 0\<close> epochs that returns leaves the epoch counter at its value before
  the run plus \<open>k\<close>, for every update step, on a trainer whose timer counts the batches of
  its own loader: the constructor leaves it so, a restore keeps it so, and so does the
  run. The timer is shared by the process, and the construction of another trainer
  initialises it again.
\<close>

theorem train_epoch_counter:
  assumes "train env n_epoch m mutual_info_layers adversarial_flag mask_explain s = (Return r, s')"
    and "0 \<le> n_epoch"
    and "timer_consistent s"
  shows "int (timer_epoch (timer s')) = int (timer_epoch (timer s)) + n_epoch \<and> timer_consistent s'"
proof -
  from effect_from_train [of "train_loader s" "timer s" env n_epoch m mutual_info_layers
         adversarial_flag mask_explain] assms(1)
  have ld: "train_loader s' = train_loader s"
    and b: "batches_in_epoch (timer s') = batches_in_epoch (timer s)"
    and i: "batch_id (timer s') = batch_id (timer s) + nat n_epoch * length (train_loader s)"
    unfolding effect_from_def by blast+
  from assms(3) have pos: "0 < batches_in_epoch (timer s)"
    and eq: "batches_in_epoch (timer s) = length (train_loader s)"
    by (auto simp: timer_consistent_def)
  from ld b assms(3) have c: "timer_consistent s'"
    by (simp add: timer_consistent_def)
  from i eq pos have "timer_epoch (timer s') = timer_epoch (timer s) + nat n_epoch"
    by (simp add: timer_epoch_def b)
  with assms(2) c show ?thesis by simp
qed

theorem train_epoch_counter_witness:
  "timer_epoch (timer ex_trainer) = 0 \<and>
   timer_epoch (timer (snd (train ex_env 2 2 1 True True ex_trainer))) = 2"
proof -
  have "fst (train ex_env 2 2 1 True True ex_trainer) = Return ()"
    by (simp add: eval_defs)
  then have run: "train ex_env 2 2 1 True True ex_trainer
                    = (Return (), snd (train ex_env 2 2 1 True True ex_trainer))"
    by (cases "train ex_env 2 2 1 True True ex_trainer") simp
  have k: "(0::int) \<le> 2" by simp
  have c: "timer_consistent ex_trainer"
    by (simp add: timer_consistent_def ex_trainer_def)
  have e: "timer_epoch (timer ex_trainer) = 0"
    by (simp add: timer_epoch_def ex_trainer_def)
  from train_epoch_counter [OF run k c] e
  show ?thesis by simp
qed

text \<open>
  The timer is one object for the whole process and every construction initialises it.
  After a second trainer was constructed over a loader of two batches, a run of one epoch
  of the first trainer, whose loader has one batch, returns with the epoch counter where
  it was.
\<close>

theorem train_epoch_counter_counterexample:
  "trainer_init ex_env ex_world ''TrainerGrad'' ex_model ex_criterion ''MNIST'' None []
     [''checkpoints''] = Return ex_first_trainer \<and>
   trainer_init ex_env2
     \<lparr>fs = fs ex_first_trainer, timer = timer ex_first_trainer, stdout = stdout ex_first_trainer,
      warnings = warnings ex_first_trainer, calls = calls ex_first_trainer,
      heap = heap ex_first_trainer\<rparr>
     ''TrainerGrad'' ex_model ex_criterion ''CIFAR'' None [] [''checkpoints'']
     = Return ex_second_trainer \<and>
   fst (train ex_env 1 1 0 False False ex_first_after_second) = Return () \<and>
   timer_epoch (timer ex_first_after_second) = 0 \<and>
   timer_epoch (timer (snd (train ex_env 1 1 0 False False ex_first_after_second))) = 0"
  by (simp add: eval_defs trainer_init_def run_name_def timer_init_def ex_world_def
        ex_env2_def ex_first_trainer_def ex_second_trainer_def ex_first_after_second_def)

end
